theory Spec2Isabelle
  imports Main "HOL-Library.Sublist" "HOL-Library.AList" "HOL-Library.Multiset"
    "HOL-Library.Product_Lexorder"
begin

section \<open>JavaScript scalar values\<close>

text \<open>
  The provider payloads are JSON. Leaf fields are modelled by \<open>jv\<close>: \<open>Undefined\<close> stands
  for a property that is missing, \<open>Null\<close> for an explicit null. Numbers are the integer
  identifiers the provider sends (integers that JavaScript prints in plain decimal).
  Nested objects are records (below), present or absent.
\<close>

datatype jv = Undefined | Null | Bool bool | Num int | Str string

text \<open>JavaScript truthiness: \<open>undefined\<close>, \<open>null\<close>, \<open>false\<close>, \<open>0\<close> and the empty string are falsy.\<close>

fun truthy :: "jv \<Rightarrow> bool" where
  "truthy Undefined = False"
| "truthy Null = False"
| "truthy (Bool b) = b"
| "truthy (Num n) = (n \<noteq> 0)"
| "truthy (Str s) = (s \<noteq> [])"

text \<open>\<open>a || b\<close> on scalars.\<close>

definition js_or :: "jv \<Rightarrow> jv \<Rightarrow> jv" where
  "js_or a b = (if truthy a then a else b)"

text \<open>Decimal rendering of a number, as a template literal does it.\<close>

definition digit :: "nat \<Rightarrow> char" where
  "digit d = ''0123456789'' ! d"

function show_nat :: "nat \<Rightarrow> string" where
  "show_nat n = (if n < 10 then [digit n] else show_nat (n div 10) @ [digit (n mod 10)])"
  by pat_completeness auto
termination
  by (relation "measure id") auto

declare show_nat.simps [simp del]

definition show_int :: "int \<Rightarrow> string" where
  "show_int i = (if i < 0 then CHR ''-'' # show_nat (nat (- i)) else show_nat (nat i))"

text \<open>\<open>String(v)\<close>, which is what \<open>`${v}`\<close> and \<open>Array.prototype.join\<close> apply to a scalar.\<close>

fun to_string :: "jv \<Rightarrow> string" where
  "to_string Undefined = ''undefined''"
| "to_string Null = ''null''"
| "to_string (Bool b) = (if b then ''true'' else ''false'')"
| "to_string (Num n) = show_int n"
| "to_string (Str s) = s"

text \<open>\<open>parts.join(sep)\<close> on an array of strings.\<close>

fun join :: "string \<Rightarrow> string list \<Rightarrow> string" where
  "join sep [] = []"
| "join sep [x] = x"
| "join sep (x # y # ys) = x @ sep @ join sep (y # ys)"

section \<open>Provider payloads\<close>

text \<open>A country object of the provider, as \<open>extractCountryInfo\<close> reads it.\<close>

record country =
  c_id :: jv
  c_name :: jv
  c_official_name :: jv
  c_iso2 :: jv
  c_fifa_name :: jv

text \<open>
  What \<open>new Date(x)\<close> gives: a date with a time value (milliseconds since the epoch), or
  an invalid date, whose time value is \<open>NaN\<close>, when \<open>x\<close> does not parse.
\<close>

datatype js_date = Time int | InvalidDate

text \<open>
  The pivot of a team membership. A date field is \<open>None\<close> when it is missing or falsy, and
  \<open>Some d\<close>, with \<open>d\<close> the value of \<open>new Date(field)\<close>, otherwise; a truthy field that does not
  parse as a date is \<open>Some InvalidDate\<close>.
\<close>

record pivot =
  p_start :: "js_date option"
  p_end :: "js_date option"

text \<open>An element of a player's \<open>teams\<close> array.\<close>

record membership =
  t_id :: jv
  t_name :: jv
  t_type :: jv
  t_pivot :: "pivot option"
  t_country :: "country option"
  t_country_id :: jv

text \<open>A player payload (\<open>GET /players/{id}\<close> with \<open>include=nationality,teams\<close>).\<close>

record player =
  pl_id :: jv
  pl_display_name :: jv
  pl_common_name :: jv
  pl_firstname :: jv
  pl_lastname :: jv
  pl_image_path :: jv
  pl_nationality_id :: jv
  pl_nationality :: "country option"
  pl_teams :: "membership list option"

text \<open>A team payload (\<open>GET /teams/{id}\<close> with \<open>include=country\<close>).\<close>

record team =
  tm_id :: jv
  tm_name :: jv
  tm_type :: jv
  tm_image_path :: jv
  tm_country :: "country option"

text \<open>An entry of the squad array (\<open>GET /squads/teams/{id}\<close> with \<open>include=player\<close>).\<close>

record squad_entry =
  se_player_id :: jv
  se_player :: "player option"

section \<open>Record normalizer (ingest.js)\<close>

text \<open>What \<open>extractCountryInfo\<close> returns: \<open>{ id, name, code }\<close>.\<close>

record country_info =
  ci_id :: jv
  ci_name :: jv
  ci_code :: jv

text \<open>\<open>{ id, name }\<close> of the current club.\<close>

record club_info =
  cl_id :: jv
  cl_name :: jv

text \<open>
  \<open>getPlayerName(player)\<close>: \<open>None\<close> is a falsy argument. The source is
  \<^verbatim>\<open>player.display_name || player.common_name ||
     [player.firstname, player.lastname].filter(Boolean).join(' ') || null\<close>.
\<close>

definition getPlayerName :: "player option \<Rightarrow> jv" where
  "getPlayerName player =
     (case player of
        None \<Rightarrow> Null
      | Some p \<Rightarrow>
          js_or (pl_display_name p)
            (js_or (pl_common_name p)
               (js_or (Str (join '' '' (map to_string (filter truthy [pl_firstname p, pl_lastname p]))))
                  Null)))"

text \<open>
  \<open>extractCountryInfo(country)\<close>: each field is read on its own, and a missing country
  gives three nulls.
\<close>

definition extractCountryInfo :: "country option \<Rightarrow> country_info" where
  "extractCountryInfo country =
     (case country of
        None \<Rightarrow> \<lparr> ci_id = Null, ci_name = Null, ci_code = Null \<rparr>
      | Some c \<Rightarrow>
          \<lparr> ci_id = js_or (c_id c) Null,
            ci_name = js_or (c_name c) (js_or (c_official_name c) Null),
            ci_code = js_or (c_iso2 c) (js_or (c_fifa_name c) Null) \<rparr>)"

text \<open>The number a comparator returns: an integer here, or \<open>NaN\<close>.\<close>

datatype js_number = Finite int | NaN

text \<open>What \<open>sort\<close> makes of the comparator's result: \<open>NaN\<close> counts as \<open>+0\<close>.\<close>

fun sort_order :: "js_number \<Rightarrow> int" where
  "sort_order (Finite v) = v"
| "sort_order NaN = 0"

text \<open>
  \<open>Array.prototype.sort(cmp)\<close> is a stable sort: \<open>a\<close> is placed before \<open>b\<close> when
  \<open>cmp(a, b) < 0\<close>, after it when \<open>cmp(a, b) > 0\<close>, and elements that compare equal keep
  their order. It is modelled by stable insertion. When all start dates parse, the
  comparator below is a total preorder, for which every stable sort returns the same array:
  \<open>js_sort_sort_key\<close> shows that the model then agrees with the library's stable sort by
  key. On two elements that compare equal both ways, every stable sort returns the input.
\<close>

fun js_insert :: "('a \<Rightarrow> 'a \<Rightarrow> js_number) \<Rightarrow> 'a \<Rightarrow> 'a list \<Rightarrow> 'a list" where
  "js_insert cmp x [] = [x]"
| "js_insert cmp x (y # ys) =
     (if sort_order (cmp x y) \<le> 0 then x # y # ys else y # js_insert cmp x ys)"

definition js_sort :: "('a \<Rightarrow> 'a \<Rightarrow> js_number) \<Rightarrow> 'a list \<Rightarrow> 'a list" where
  "js_sort cmp xs = foldr (js_insert cmp) xs []"

text \<open>The filter of \<open>findCurrentClub\<close>:
  \<^verbatim>\<open>t.type === 'domestic' || t.type === 'club' || !t.type\<close>.\<close>

definition is_club :: "membership \<Rightarrow> bool" where
  "is_club t \<longleftrightarrow> t_type t = Str ''domestic'' \<or> t_type t = Str ''club'' \<or> \<not> truthy (t_type t)"

text \<open>\<open>a.pivot?.end\<close> and \<open>a.pivot?.start\<close>.\<close>

definition pivot_end :: "membership \<Rightarrow> js_date option" where
  "pivot_end t = (case t_pivot t of None \<Rightarrow> None | Some p \<Rightarrow> p_end p)"

definition pivot_start :: "membership \<Rightarrow> js_date option" where
  "pivot_start t = (case t_pivot t of None \<Rightarrow> None | Some p \<Rightarrow> p_start p)"

text \<open>\<open>d > new Date()\<close> on dates compares the time values, and is false when one is \<open>NaN\<close>;
  \<open>now\<close> is the time value of \<open>new Date()\<close>.\<close>

fun date_after :: "js_date \<Rightarrow> int \<Rightarrow> bool" where
  "date_after (Time t) now = (t > now)"
| "date_after InvalidDate now = False"

text \<open>\<open>!a.pivot?.end || new Date(a.pivot.end) > new Date()\<close>; \<open>now\<close> is taken as the same
  instant for every comparison of one sort.\<close>

definition active :: "int \<Rightarrow> membership \<Rightarrow> bool" where
  "active now t = (case pivot_end t of None \<Rightarrow> True | Some d \<Rightarrow> date_after d now)"

text \<open>\<open>a.pivot?.start ? new Date(a.pivot.start) : new Date(0)\<close>.\<close>

definition start_date :: "membership \<Rightarrow> js_date" where
  "start_date t = (case pivot_start t of None \<Rightarrow> Time 0 | Some d \<Rightarrow> d)"

text \<open>\<open>b - a\<close> on dates subtracts the time values, and is \<open>NaN\<close> when one of them is.\<close>

fun date_minus :: "js_date \<Rightarrow> js_date \<Rightarrow> js_number" where
  "date_minus (Time b) (Time a) = Finite (b - a)"
| "date_minus InvalidDate a = NaN"
| "date_minus (Time b) InvalidDate = NaN"

text \<open>The comparator handed to \<open>sort\<close>.\<close>

definition club_cmp :: "int \<Rightarrow> membership \<Rightarrow> membership \<Rightarrow> js_number" where
  "club_cmp now a b =
     (if active now a \<and> \<not> active now b then Finite (- 1)
      else if \<not> active now a \<and> active now b then Finite 1
      else date_minus (start_date b) (start_date a))"

text \<open>
  \<open>findCurrentClub(teams)\<close>: \<open>None\<close> as argument is a value that is missing or not an array,
  \<open>None\<close> as result is \<open>null\<close>.
\<close>

definition findCurrentClub :: "int \<Rightarrow> membership list option \<Rightarrow> membership option" where
  "findCurrentClub now teams =
     (case teams of
        None \<Rightarrow> None
      | Some ts \<Rightarrow>
          (case js_sort (club_cmp now) (filter is_club ts) of
             [] \<Rightarrow> None
           | m # _ \<Rightarrow> Some m))"

section \<open>API client (sportmonksClient.js)\<close>

text \<open>
  The module \<open>sportmonksClient.js\<close> that \<open>ingest.js\<close> imports; its text follows the CSV
  importer in \<open>src/src/ingestCSV.js\<close>, from line 238 on.
\<close>

text \<open>A JavaScript error object: its \<open>name\<close>, its \<open>code\<close> when it has one, its \<open>message\<close>.\<close>

record js_error =
  err_name :: string
  err_code :: "string option"
  err_message :: string

text \<open>\<open>new Error(message)\<close>.\<close>

definition Error :: "string \<Rightarrow> js_error" where
  "Error msg = \<lparr> err_name = ''Error'', err_code = None, err_message = msg \<rparr>"

text \<open>\<open>s.includes(sub)\<close>: \<open>sub\<close> occurs in \<open>s\<close> as a contiguous run of characters.\<close>

fun str_includes :: "string \<Rightarrow> string \<Rightarrow> bool" where
  "str_includes [] sub = (sub = [])"
| "str_includes (c # cs) sub = (prefix sub (c # cs) \<or> str_includes cs sub)"

text \<open>
  What one call of \<open>fetch\<close> does: it rejects (an \<open>AbortError\<close> when the timeout fires, a
  network error otherwise), or it resolves to a response with a status, a body text and
  the outcome of \<open>response.json()\<close>, the parsed data or the error it throws. Reading the
  body text with \<open>response.text()\<close> is taken to succeed.
\<close>

datatype 'd fetch_result = Rejected js_error | Response nat string "js_error + 'd"

text \<open>
  What the body of the retry loop decides for one attempt: return the data, throw, or go
  to the next attempt, after a backoff wait (in milliseconds) if any, remembering the error
  it caught if any.
\<close>

datatype 'd action = Return 'd | Throw js_error | Retry "nat option" "js_error option"

text \<open>\<open>Math.pow(2, attempt) * 1000\<close>.\<close>

definition backoffMs :: "nat \<Rightarrow> nat" where
  "backoffMs attempt = 2 ^ attempt * 1000"

text \<open>The \<open>catch (error)\<close> block of \<open>apiRequest\<close>.\<close>

definition catch_block :: "nat \<Rightarrow> js_error \<Rightarrow> 'd action" where
  "catch_block attempt error =
     (if err_name error = ''AbortError'' then Retry None (Some error)
      else if err_code error = Some ''ECONNRESET'' \<or> err_code error = Some ''ENOTFOUND''
              \<or> str_includes (err_message error) ''fetch''
        then Retry (Some (backoffMs attempt)) (Some error)
      else Throw error)"

text \<open>The \<open>try\<close> block of \<open>apiRequest\<close>; whatever it throws lands in the \<open>catch\<close> block.\<close>

definition try_block :: "nat \<Rightarrow> 'd fetch_result \<Rightarrow> 'd action" where
  "try_block attempt r =
     (case r of
        Rejected e \<Rightarrow> catch_block attempt e
      | Response status body json \<Rightarrow>
          if status = 429 then Retry (Some (backoffMs attempt)) None
          else if status \<ge> 500 then Retry (Some (backoffMs attempt)) None
          else if status \<ge> 400
            then catch_block attempt (Error (''API Error '' @ show_nat status @ '': '' @ body))
          else (case json of Inr d \<Rightarrow> Return d | Inl e \<Rightarrow> catch_block attempt e))"

text \<open>
  What a request does that can be observed from outside: the call of \<open>waitForRateLimit\<close>
  before each attempt (how long it waits depends on the clock and is left open), the
  attempt, and each backoff wait with its length in milliseconds.
\<close>

datatype event = RateLimitWait | Fetch nat | Backoff nat

record request_state =
  totalApiCalls :: nat
  events :: "event list"

definition begin_attempt :: "nat \<Rightarrow> request_state \<Rightarrow> request_state" where
  "begin_attempt attempt st =
     st\<lparr> totalApiCalls := totalApiCalls st + 1,
         events := events st @ [RateLimitWait, Fetch attempt] \<rparr>"

definition sleep :: "nat option \<Rightarrow> request_state \<Rightarrow> request_state" where
  "sleep wait st = (case wait of None \<Rightarrow> st | Some ms \<Rightarrow> st\<lparr> events := events st @ [Backoff ms] \<rparr>)"

text \<open>
  The loop \<open>for (let attempt = 0; attempt <= MAX_RETRIES; attempt++)\<close> of \<open>apiRequest\<close>, from
  \<open>attempt\<close> on. \<open>fetch i\<close> is what the \<open>i\<close>-th attempt's call of \<open>fetch\<close> does. The result is
  the data returned or the error thrown.
\<close>

function apiRequest_from ::
  "nat \<Rightarrow> (nat \<Rightarrow> 'd fetch_result) \<Rightarrow> nat \<Rightarrow> js_error option \<Rightarrow> request_state
     \<Rightarrow> (js_error + 'd) \<times> request_state" where
  "apiRequest_from MAX_RETRIES fetch attempt lastError st =
     (if attempt \<le> MAX_RETRIES then
        (case try_block attempt (fetch attempt) of
           Return d \<Rightarrow> (Inr d, begin_attempt attempt st)
         | Throw e \<Rightarrow> (Inl e, begin_attempt attempt st)
         | Retry wait caught \<Rightarrow>
             apiRequest_from MAX_RETRIES fetch (attempt + 1)
               (case caught of None \<Rightarrow> lastError | Some e \<Rightarrow> Some e)
               (sleep wait (begin_attempt attempt st)))
      else
        (Inl (Error (''Max retries exceeded. Last error: '' @
                (case lastError of None \<Rightarrow> ''undefined'' | Some e \<Rightarrow> err_message e))),
         st))"
  by pat_completeness auto
termination
  by (relation "measure (\<lambda>(m, f, attempt, e, st). Suc m - attempt)") auto

declare apiRequest_from.simps [simp del]

definition apiRequest ::
  "nat \<Rightarrow> (nat \<Rightarrow> 'd fetch_result) \<Rightarrow> request_state \<Rightarrow> (js_error + 'd) \<times> request_state" where
  "apiRequest MAX_RETRIES fetch st = apiRequest_from MAX_RETRIES fetch 0 None st"

text \<open>The backoff waits of a run, in order.\<close>

fun backoffs :: "event list \<Rightarrow> nat list" where
  "backoffs [] = []"
| "backoffs (Backoff ms # es) = ms # backoffs es"
| "backoffs (e # es) = backoffs es"

text \<open>
  The lookups of the client sit on \<open>apiRequest\<close>. For them, \<open>api\<close> says what
  \<open>await apiRequest(endpoint, params)\<close> gives for each endpoint path during the run: the
  error it throws, or the \<open>data\<close> of the response, \<open>None\<close> when the response has none.
\<close>

record api =
  squads_endpoint :: "string \<Rightarrow> js_error + squad_entry list option"
  teams_endpoint :: "string \<Rightarrow> js_error + team option"
  players_endpoint :: "string \<Rightarrow> js_error + player option"
  countries_endpoint :: "string \<Rightarrow> js_error + country option"

text \<open>The in-memory caches: one \<open>Map\<close> per kind, keyed by the identifier passed in.\<close>

record client_cache =
  cache_teams :: "jv \<rightharpoonup> team"
  cache_players :: "jv \<rightharpoonup> player"
  cache_countries :: "jv \<rightharpoonup> country"

text \<open>\<open>getTeamSquad(teamId)\<close>: \<open>response.data || []\<close>, never cached.\<close>

definition getTeamSquad :: "api \<Rightarrow> jv \<Rightarrow> js_error + squad_entry list" where
  "getTeamSquad a teamId =
     (case squads_endpoint a (''/squads/teams/'' @ to_string teamId) of
        Inl e \<Rightarrow> Inl e
      | Inr d \<Rightarrow> Inr (case d of None \<Rightarrow> [] | Some es \<Rightarrow> es))"

text \<open>\<open>getPlayer(playerId)\<close>: the cached payload, or the fetched one, cached when there is one.
  The result \<open>Inr None\<close> is \<open>undefined\<close>.\<close>

definition getPlayer ::
  "api \<Rightarrow> jv \<Rightarrow> client_cache \<Rightarrow> (js_error + player option) \<times> client_cache" where
  "getPlayer a playerId c =
     (case cache_players c playerId of
        Some p \<Rightarrow> (Inr (Some p), c)
      | None \<Rightarrow>
          (case players_endpoint a (''/players/'' @ to_string playerId) of
             Inl e \<Rightarrow> (Inl e, c)
           | Inr None \<Rightarrow> (Inr None, c)
           | Inr (Some p) \<Rightarrow> (Inr (Some p), c\<lparr>cache_players := (cache_players c)(playerId \<mapsto> p)\<rparr>)))"

text \<open>\<open>getTeam(teamId)\<close>.\<close>

definition getTeam ::
  "api \<Rightarrow> jv \<Rightarrow> client_cache \<Rightarrow> (js_error + team option) \<times> client_cache" where
  "getTeam a teamId c =
     (case cache_teams c teamId of
        Some t \<Rightarrow> (Inr (Some t), c)
      | None \<Rightarrow>
          (case teams_endpoint a (''/teams/'' @ to_string teamId) of
             Inl e \<Rightarrow> (Inl e, c)
           | Inr None \<Rightarrow> (Inr None, c)
           | Inr (Some t) \<Rightarrow> (Inr (Some t), c\<lparr>cache_teams := (cache_teams c)(teamId \<mapsto> t)\<rparr>)))"

text \<open>\<open>getCountry(countryId)\<close>: \<open>null\<close> at once for a falsy identifier.\<close>

definition getCountry ::
  "api \<Rightarrow> jv \<Rightarrow> client_cache \<Rightarrow> (js_error + country option) \<times> client_cache" where
  "getCountry a countryId c =
     (if \<not> truthy countryId then (Inr None, c)
      else
        (case cache_countries c countryId of
           Some k \<Rightarrow> (Inr (Some k), c)
         | None \<Rightarrow>
             (case countries_endpoint a (''/countries/'' @ to_string countryId) of
                Inl e \<Rightarrow> (Inl e, c)
              | Inr None \<Rightarrow> (Inr None, c)
              | Inr (Some k) \<Rightarrow>
                  (Inr (Some k), c\<lparr>cache_countries := (cache_countries c)(countryId \<mapsto> k)\<rparr>))))"

section \<open>Idempotent store (db.js)\<close>

text \<open>
  A stored document is a list of fields. A field holds a scalar, a nested object of
  scalars (\<open>country\<close>, \<open>nationality\<close>, \<open>currentClub\<close>), an array of scalars (\<open>playerIds\<close>)
  or a date (\<open>updatedAt\<close>, \<open>fetchedAt\<close>: milliseconds since the epoch). A collection is the
  list of its documents. The database is taken to be reachable, and the uniqueness
  constraints that \<open>ensureIndexes\<close> sets on (provider, providerId) and (provider, teamId)
  are not modelled: an update the server would refuse is outside the model.
\<close>

datatype dbval = V jv | Obj "(string \<times> jv) list" | Arr "jv list" | Date int

type_synonym doc = "(string \<times> dbval) list"

type_synonym collection = "doc list"

record db =
  teams_col :: collection
  players_col :: collection
  squads_col :: collection
  countries_col :: collection

text \<open>The driver serializes \<open>undefined\<close> as \<open>null\<close> (its default, \<open>ignoreUndefined: false\<close>).\<close>

fun bson_jv :: "jv \<Rightarrow> jv" where
  "bson_jv Undefined = Null"
| "bson_jv v = v"

fun bson :: "dbval \<Rightarrow> dbval" where
  "bson (V v) = V (bson_jv v)"
| "bson (Obj fs) = Obj (map (\<lambda>(k, v). (k, bson_jv v)) fs)"
| "bson (Arr vs) = Arr (map bson_jv vs)"
| "bson (Date t) = Date t"

definition doc_id :: "doc \<Rightarrow> dbval option" where
  "doc_id d = map_of d ''_id''"

text \<open>The update operator \<open>{ $set: upd }\<close>: every field of \<open>upd\<close> is written, every other
  field of the stored document is kept.\<close>

definition apply_set :: "doc \<Rightarrow> doc \<Rightarrow> doc" where
  "apply_set upd d = fold (\<lambda>(k, v). AList.update k (bson v)) upd d"

text \<open>
  \<open>collection.updateOne({ _id }, { $set: upd }, { upsert: true })\<close>: the first document
  whose \<open>_id\<close> equals the filter's is updated; when there is none, a document made of the
  filter's \<open>_id\<close> and the fields of \<open>upd\<close> is inserted.
\<close>

fun updateOne :: "jv \<Rightarrow> doc \<Rightarrow> collection \<Rightarrow> collection" where
  "updateOne i upd [] = [apply_set upd [(''_id'', V i)]]"
| "updateOne i upd (d # ds) =
     (if doc_id d = Some (V i) then apply_set upd d # ds
      else d # updateOne i upd ds)"

definition find_doc :: "jv \<Rightarrow> collection \<Rightarrow> doc option" where
  "find_doc i c = List.find (\<lambda>d. doc_id d = Some (V i)) c"

text \<open>The document an update by \<open>_id\<close> starts from: the stored one, or the filter's fields.\<close>

definition base_doc :: "jv \<Rightarrow> collection \<Rightarrow> doc" where
  "base_doc i c = (case find_doc i c of Some d \<Rightarrow> d | None \<Rightarrow> [(''_id'', V i)])"

definition count_docs :: "jv \<Rightarrow> collection \<Rightarrow> nat" where
  "count_docs i c = length (filter (\<lambda>d. doc_id d = Some (V i)) c)"

definition country_obj :: "country_info \<Rightarrow> dbval" where
  "country_obj c = Obj [(''id'', ci_id c), (''name'', ci_name c), (''code'', ci_code c)]"

definition club_obj :: "club_info \<Rightarrow> dbval" where
  "club_obj c = Obj [(''id'', cl_id c), (''name'', cl_name c)]"

definition null_country :: country_info where
  "null_country = \<lparr> ci_id = Null, ci_name = Null, ci_code = Null \<rparr>"

definition null_club :: club_info where
  "null_club = \<lparr> cl_id = Null, cl_name = Null \<rparr>"

text \<open>The arguments of the four upserts. A nested object that the caller leaves out is \<open>None\<close>.\<close>

record teamData =
  td_id :: jv
  td_provider :: jv
  td_providerId :: jv
  td_name :: jv
  td_type :: jv
  td_country :: "country_info option"
  td_image_path :: jv

record playerData =
  pd_id :: jv
  pd_provider :: jv
  pd_providerId :: jv
  pd_name :: jv
  pd_position :: jv
  pd_nationality :: "country_info option"
  pd_image_path :: jv
  pd_currentClub :: "club_info option"
  pd_currentClubCountry :: "country_info option"

record squadData =
  sd_id :: jv
  sd_provider :: jv
  sd_teamId :: jv
  sd_teamName :: jv
  sd_playerIds :: "jv list option"

record countryData =
  cd_providerId :: jv
  cd_name :: jv
  cd_code :: jv

text \<open>\<open>const _id = teamData._id || `team:sportmonks:${teamData.providerId}`\<close>, and its siblings.\<close>

definition team_id :: "teamData \<Rightarrow> jv" where
  "team_id t = js_or (td_id t) (Str (''team:sportmonks:'' @ to_string (td_providerId t)))"

definition player_id :: "playerData \<Rightarrow> jv" where
  "player_id p = js_or (pd_id p) (Str (''player:sportmonks:'' @ to_string (pd_providerId p)))"

definition squad_id :: "squadData \<Rightarrow> jv" where
  "squad_id s =
     js_or (sd_id s) (Str (''squad:sportmonks:'' @ to_string (sd_teamId s) @ '':current''))"

definition country_id :: "countryData \<Rightarrow> jv" where
  "country_id c = Str (''country:sportmonks:'' @ to_string (cd_providerId c))"

text \<open>The document each upsert builds; \<open>now\<close> is the value of \<open>new Date()\<close>.\<close>

definition team_doc :: "int \<Rightarrow> teamData \<Rightarrow> doc" where
  "team_doc now t =
     [(''_id'', V (team_id t)),
      (''provider'', V (js_or (td_provider t) (Str ''sportmonks''))),
      (''providerId'', V (td_providerId t)),
      (''name'', V (js_or (td_name t) Null)),
      (''type'', V (js_or (td_type t) Null)),
      (''country'', country_obj (case td_country t of Some c \<Rightarrow> c | None \<Rightarrow> null_country)),
      (''image_path'', V (js_or (td_image_path t) Null)),
      (''updatedAt'', Date now)]"

definition player_doc :: "int \<Rightarrow> playerData \<Rightarrow> doc" where
  "player_doc now p =
     [(''_id'', V (player_id p)),
      (''provider'', V (js_or (pd_provider p) (Str ''sportmonks''))),
      (''providerId'', V (pd_providerId p)),
      (''name'', V (js_or (pd_name p) Null)),
      (''position'', V (js_or (pd_position p) Null)),
      (''nationality'', country_obj (case pd_nationality p of Some c \<Rightarrow> c | None \<Rightarrow> null_country)),
      (''image_path'', V (js_or (pd_image_path p) Null)),
      (''currentClub'', club_obj (case pd_currentClub p of Some c \<Rightarrow> c | None \<Rightarrow> null_club)),
      (''currentClubCountry'',
         country_obj (case pd_currentClubCountry p of Some c \<Rightarrow> c | None \<Rightarrow> null_country)),
      (''updatedAt'', Date now)]"

definition squad_doc :: "int \<Rightarrow> squadData \<Rightarrow> doc" where
  "squad_doc now s =
     [(''_id'', V (squad_id s)),
      (''provider'', V (js_or (sd_provider s) (Str ''sportmonks''))),
      (''teamId'', V (sd_teamId s)),
      (''teamName'', V (js_or (sd_teamName s) Null)),
      (''playerIds'', Arr (case sd_playerIds s of Some ids \<Rightarrow> ids | None \<Rightarrow> [])),
      (''fetchedAt'', Date now)]"

definition country_doc :: "int \<Rightarrow> countryData \<Rightarrow> doc" where
  "country_doc now c =
     [(''_id'', V (country_id c)),
      (''provider'', V (Str ''sportmonks'')),
      (''providerId'', V (cd_providerId c)),
      (''name'', V (js_or (cd_name c) Null)),
      (''code'', V (js_or (cd_code c) Null)),
      (''updatedAt'', Date now)]"

text \<open>The upserts return the document they built and leave the database updated.\<close>

definition upsertTeam :: "int \<Rightarrow> teamData \<Rightarrow> db \<Rightarrow> doc \<times> db" where
  "upsertTeam now t s =
     (team_doc now t, s\<lparr>teams_col := updateOne (team_id t) (team_doc now t) (teams_col s)\<rparr>)"

definition upsertPlayer :: "int \<Rightarrow> playerData \<Rightarrow> db \<Rightarrow> doc \<times> db" where
  "upsertPlayer now p s =
     (player_doc now p,
      s\<lparr>players_col := updateOne (player_id p) (player_doc now p) (players_col s)\<rparr>)"

definition upsertSquad :: "int \<Rightarrow> squadData \<Rightarrow> db \<Rightarrow> doc \<times> db" where
  "upsertSquad now q s =
     (squad_doc now q, s\<lparr>squads_col := updateOne (squad_id q) (squad_doc now q) (squads_col s)\<rparr>)"

definition upsertCountry :: "int \<Rightarrow> countryData \<Rightarrow> db \<Rightarrow> doc \<times> db" where
  "upsertCountry now c s =
     (country_doc now c,
      s\<lparr>countries_col := updateOne (country_id c) (country_doc now c) (countries_col s)\<rparr>)"

section \<open>Ingestion orchestrator (ingest.js)\<close>

text \<open>
  The state a run works on: the client's caches and the database. \<open>now\<close> is the value
  of \<open>new Date()\<close>, taken as constant over the run.
\<close>

record world =
  cache :: client_cache
  store :: db

record config =
  TEAM_IDS :: "jv list"
  MAX_PLAYERS_PER_SQUAD :: nat

text \<open>An element of an error list: \<open>{ playerId, error }\<close> or \<open>{ teamId, error }\<close>.\<close>

datatype error_entry = PlayerError jv string | TeamError jv string

record stats =
  playersUpserted :: nat
  errors :: "error_entry list"

text \<open>Lines 125 to 130: the payload included in the squad entry, or the fetched one when it
  is missing or has no \<open>nationality_id\<close>.\<close>

definition playerOf ::
  "api \<Rightarrow> squad_entry \<Rightarrow> client_cache \<Rightarrow> (js_error + player option) \<times> client_cache" where
  "playerOf a entry c =
     (case se_player entry of
        None \<Rightarrow> getPlayer a (se_player_id entry) c
      | Some p \<Rightarrow>
          if \<not> truthy (pl_nationality_id p) then getPlayer a (se_player_id entry) c
          else (Inr (Some p), c))"

text \<open>Lines 138 to 145: the nationality, from the included object or fetched by its id.\<close>

definition nationalityOf ::
  "api \<Rightarrow> player \<Rightarrow> client_cache \<Rightarrow> (js_error + country_info) \<times> client_cache" where
  "nationalityOf a player c =
     (case pl_nationality player of
        Some n \<Rightarrow> (Inr (extractCountryInfo (Some n)), c)
      | None \<Rightarrow>
          if truthy (pl_nationality_id player) then
            (case getCountry a (pl_nationality_id player) c of
               (Inl e, c') \<Rightarrow> (Inl e, c')
             | (Inr natCountry, c') \<Rightarrow> (Inr (extractCountryInfo natCountry), c'))
          else (Inr \<lparr> ci_id = Null, ci_name = Null, ci_code = Null \<rparr>, c))"

text \<open>Lines 148 to 169: the current club and its country; both stay at their nulls unless
  \<open>findCurrentClub\<close> finds a club.\<close>

definition currentClubOf ::
  "int \<Rightarrow> api \<Rightarrow> player \<Rightarrow> client_cache
     \<Rightarrow> (js_error + club_info \<times> country_info) \<times> client_cache" where
  "currentClubOf now a player c =
     (case pl_teams player of
        None \<Rightarrow> (Inr (\<lparr> cl_id = Null, cl_name = Null \<rparr>,
                       \<lparr> ci_id = Null, ci_name = Null, ci_code = Null \<rparr>), c)
      | Some ts \<Rightarrow>
          (case findCurrentClub now (Some ts) of
             None \<Rightarrow> (Inr (\<lparr> cl_id = Null, cl_name = Null \<rparr>,
                            \<lparr> ci_id = Null, ci_name = Null, ci_code = Null \<rparr>), c)
           | Some currentClub \<Rightarrow>
               (let currentClubInfo =
                      \<lparr> cl_id = js_or (t_id currentClub) Null,
                        cl_name = js_or (t_name currentClub) Null \<rparr>
                in case t_country currentClub of
                     Some k \<Rightarrow> (Inr (currentClubInfo, extractCountryInfo (Some k)), c)
                   | None \<Rightarrow>
                       if truthy (t_country_id currentClub) then
                         (case getCountry a (t_country_id currentClub) c of
                            (Inl e, c') \<Rightarrow> (Inl e, c')
                          | (Inr clubCountry, c') \<Rightarrow>
                              (Inr (currentClubInfo, extractCountryInfo clubCountry), c'))
                       else (Inr (currentClubInfo,
                                  \<lparr> ci_id = Null, ci_name = Null, ci_code = Null \<rparr>), c))))"

text \<open>Line 172: \<open>`player:sportmonks:${player.id}`\<close>.\<close>

definition playerDocId :: "player \<Rightarrow> jv" where
  "playerDocId player = Str (''player:sportmonks:'' @ to_string (pl_id player))"

text \<open>Lines 173 to 180: the argument of \<open>db.upsertPlayer\<close>.\<close>

definition playerDataOf :: "player \<Rightarrow> country_info \<Rightarrow> club_info \<Rightarrow> country_info \<Rightarrow> playerData" where
  "playerDataOf player nationalityInfo currentClubInfo currentClubCountryInfo =
     \<lparr> pd_id = Undefined, pd_provider = Undefined, pd_providerId = pl_id player,
       pd_name = getPlayerName (Some player), pd_position = Undefined,
       pd_nationality = Some nationalityInfo,
       pd_image_path = js_or (pl_image_path player) Null,
       pd_currentClub = Some currentClubInfo,
       pd_currentClubCountry = Some currentClubCountryInfo \<rparr>"

text \<open>
  What one pass of the player loop does with a squad entry: it skips the entry (no
  \<open>player_id\<close>, or no payload), fails (an error caught by the inner \<open>catch\<close>, recorded with the
  entry's \<open>player_id\<close>), or upserts the player, whose document identifier it yields.
\<close>

datatype outcome = NoPlayerId | NoPlayer | Failed jv string | Upserted jv

text \<open>The body of the loop over the squad entries (lines 115 to 188).\<close>

definition processEntry :: "int \<Rightarrow> api \<Rightarrow> squad_entry \<Rightarrow> world \<Rightarrow> outcome \<times> world" where
  "processEntry now a entry w =
     (let playerId = se_player_id entry in
      if \<not> truthy playerId then (NoPlayerId, w)
      else
        (case playerOf a entry (cache w) of
           (Inl error, c1) \<Rightarrow> (Failed playerId (err_message error), w\<lparr>cache := c1\<rparr>)
         | (Inr None, c1) \<Rightarrow> (NoPlayer, w\<lparr>cache := c1\<rparr>)
         | (Inr (Some player), c1) \<Rightarrow>
             (case nationalityOf a player c1 of
                (Inl error, c2) \<Rightarrow> (Failed playerId (err_message error), w\<lparr>cache := c2\<rparr>)
              | (Inr nationalityInfo, c2) \<Rightarrow>
                  (case currentClubOf now a player c2 of
                     (Inl error, c3) \<Rightarrow> (Failed playerId (err_message error), w\<lparr>cache := c3\<rparr>)
                   | (Inr (currentClubInfo, currentClubCountryInfo), c3) \<Rightarrow>
                       (Upserted (playerDocId player),
                        w\<lparr> cache := c3,
                           store := snd (upsertPlayer now
                             (playerDataOf player nationalityInfo currentClubInfo
                                currentClubCountryInfo) (store w)) \<rparr>)))))"

text \<open>
  The loop \<open>for (let i = 0; i < maxPlayers; i++)\<close>, over the entries it visits, with the
  variables it updates: \<open>playerIds\<close>, \<open>stats\<close> and the state.
\<close>

fun playersLoop ::
  "int \<Rightarrow> api \<Rightarrow> squad_entry list \<Rightarrow> jv list \<times> stats \<times> world \<Rightarrow> jv list \<times> stats \<times> world" where
  "playersLoop now a [] acc = acc"
| "playersLoop now a (entry # rest) (playerIds, stats, w) =
     (case processEntry now a entry w of
        (NoPlayerId, w') \<Rightarrow> playersLoop now a rest (playerIds, stats, w')
      | (NoPlayer, w') \<Rightarrow> playersLoop now a rest (playerIds, stats, w')
      | (Failed playerId msg, w') \<Rightarrow>
          playersLoop now a rest
            (playerIds, stats\<lparr>errors := errors stats @ [PlayerError playerId msg]\<rparr>, w')
      | (Upserted docId, w') \<Rightarrow>
          playersLoop now a rest
            (playerIds @ [docId], stats\<lparr>playersUpserted := playersUpserted stats + 1\<rparr>, w'))"

text \<open>Lines 88 to 108: the team document, and the country document when the team has a
  country with an id.\<close>

definition upsertTeamOf :: "int \<Rightarrow> team option \<Rightarrow> db \<Rightarrow> db" where
  "upsertTeamOf now team s =
     (case team of
        None \<Rightarrow> s
      | Some t \<Rightarrow>
          (let s1 = snd (upsertTeam now
                 \<lparr> td_id = Undefined, td_provider = Undefined, td_providerId = tm_id t,
                   td_name = tm_name t, td_type = js_or (tm_type t) Null,
                   td_country = Some (extractCountryInfo (tm_country t)),
                   td_image_path = js_or (tm_image_path t) Null \<rparr> s)
           in case tm_country t of
                None \<Rightarrow> s1
              | Some k \<Rightarrow>
                  if truthy (c_id k) then
                    snd (upsertCountry now
                      \<lparr> cd_providerId = c_id k, cd_name = c_name k,
                        cd_code = js_or (c_iso2 k) (js_or (c_fifa_name k) Null) \<rparr> s1)
                  else s1))"

text \<open>
  \<open>processTeamSquad(client, teamId, config)\<close>. An error of the squad fetch or of the team
  fetch lands in the outer \<open>catch\<close>; an empty squad returns early.
\<close>

definition processTeamSquad :: "int \<Rightarrow> api \<Rightarrow> jv \<Rightarrow> config \<Rightarrow> world \<Rightarrow> stats \<times> world" where
  "processTeamSquad now a teamId cfg w =
     (case getTeamSquad a teamId of
        Inl error \<Rightarrow>
          (\<lparr> playersUpserted = 0, errors = [TeamError teamId (err_message error)] \<rparr>, w)
      | Inr squadEntries \<Rightarrow>
          if squadEntries = [] then (\<lparr> playersUpserted = 0, errors = [] \<rparr>, w)
          else
            (case getTeam a teamId (cache w) of
               (Inl error, c1) \<Rightarrow>
                 (\<lparr> playersUpserted = 0, errors = [TeamError teamId (err_message error)] \<rparr>,
                  w\<lparr>cache := c1\<rparr>)
             | (Inr team, c1) \<Rightarrow>
                 (let w1 = w\<lparr> cache := c1, store := upsertTeamOf now team (store w) \<rparr>;
                      maxPlayers = min (length squadEntries) (MAX_PLAYERS_PER_SQUAD cfg);
                      (playerIds, stats, w2) =
                        playersLoop now a (take maxPlayers squadEntries)
                          ([], \<lparr> playersUpserted = 0, errors = [] \<rparr>, w1)
                  in (stats,
                      w2\<lparr> store := snd (upsertSquad now
                            \<lparr> sd_id = Undefined, sd_provider = Undefined, sd_teamId = teamId,
                              sd_teamName = Undefined, sd_playerIds = Some playerIds \<rparr>
                            (store w2)) \<rparr>))))"

text \<open>The run summary of \<open>main\<close>.\<close>

record summary =
  teamsProcessed :: nat
  total_playersUpserted :: nat
  squadsUpserted :: nat
  all_errors :: "error_entry list"

text \<open>The loop \<open>for (const teamId of config.TEAM_IDS)\<close> of \<open>main\<close>.\<close>

fun teamsLoop :: "int \<Rightarrow> api \<Rightarrow> config \<Rightarrow> jv list \<Rightarrow> summary \<times> world \<Rightarrow> summary \<times> world" where
  "teamsLoop now a cfg [] acc = acc"
| "teamsLoop now a cfg (teamId # rest) (summary, w) =
     (case processTeamSquad now a teamId cfg w of
        (stats, w') \<Rightarrow>
          teamsLoop now a cfg rest
            (summary\<lparr> teamsProcessed := teamsProcessed summary + 1,
                      total_playersUpserted := total_playersUpserted summary + playersUpserted stats,
                      squadsUpserted := squadsUpserted summary + 1,
                      all_errors := all_errors summary @ errors stats \<rparr>, w'))"

text \<open>
  \<open>main\<close>, from step 5 on (the configuration is loaded, the database connected): the
  summary, the exit status and the state it leaves.
\<close>

definition main :: "int \<Rightarrow> api \<Rightarrow> config \<Rightarrow> world \<Rightarrow> summary \<times> nat \<times> world" where
  "main now a cfg w =
     (case teamsLoop now a cfg (TEAM_IDS cfg)
             (\<lparr> teamsProcessed = 0, total_playersUpserted = 0, squadsUpserted = 0,
                all_errors = [] \<rparr>, w) of
        (summary, w') \<Rightarrow> (summary, if all_errors summary \<noteq> [] then 1 else 0, w'))"

section \<open>Vocabulary of the orchestrator properties\<close>

text \<open>The outcome of each pass of the player loop over the entries, from the state \<open>w\<close> on.\<close>

fun outcomes :: "int \<Rightarrow> api \<Rightarrow> squad_entry list \<Rightarrow> world \<Rightarrow> outcome list" where
  "outcomes now a [] w = []"
| "outcomes now a (entry # rest) w =
     fst (processEntry now a entry w) # outcomes now a rest (snd (processEntry now a entry w))"

text \<open>The state the player loop leaves.\<close>

fun world_after :: "int \<Rightarrow> api \<Rightarrow> squad_entry list \<Rightarrow> world \<Rightarrow> world" where
  "world_after now a [] w = w"
| "world_after now a (entry # rest) w = world_after now a rest (snd (processEntry now a entry w))"

text \<open>The identifiers of the upserted players and the recorded failures, in the order of the passes.\<close>

fun upserted_ids :: "outcome list \<Rightarrow> jv list" where
  "upserted_ids [] = []"
| "upserted_ids (Upserted d # os) = d # upserted_ids os"
| "upserted_ids (_ # os) = upserted_ids os"

fun player_errors :: "outcome list \<Rightarrow> error_entry list" where
  "player_errors [] = []"
| "player_errors (Failed p msg # os) = PlayerError p msg # player_errors os"
| "player_errors (_ # os) = player_errors os"

fun is_upserted :: "outcome \<Rightarrow> bool" where
  "is_upserted (Upserted d) = True"
| "is_upserted _ = False"

text \<open>The \<open>playerIds\<close> of the squad document stored for a team, if there is one.\<close>

definition persisted_playerIds :: "jv \<Rightarrow> db \<Rightarrow> jv list option" where
  "persisted_playerIds teamId s =
     (case find_doc (Str (''squad:sportmonks:'' @ to_string teamId @ '':current'')) (squads_col s) of
        None \<Rightarrow> None
      | Some d \<Rightarrow> (case map_of d ''playerIds'' of Some (Arr ids) \<Rightarrow> Some ids | _ \<Rightarrow> None))"

text \<open>The state in which the player loop starts: the caches after \<open>getTeam\<close>, the database
  after the team and country upserts.\<close>

definition loop_start :: "int \<Rightarrow> api \<Rightarrow> jv \<Rightarrow> world \<Rightarrow> world" where
  "loop_start now a teamId w =
     (case getTeam a teamId (cache w) of
        (r, c1) \<Rightarrow> w\<lparr> cache := c1,
                       store := upsertTeamOf now (case r of Inl e \<Rightarrow> None | Inr t \<Rightarrow> t) (store w) \<rparr>)"

text \<open>The entries the player loop visits.\<close>

definition capped :: "config \<Rightarrow> squad_entry list \<Rightarrow> squad_entry list" where
  "capped cfg squadEntries = take (min (length squadEntries) (MAX_PLAYERS_PER_SQUAD cfg)) squadEntries"

text \<open>The outcomes of the player loop of a run of \<open>processTeamSquad\<close> that reaches it.\<close>

definition loop_outcomes ::
  "int \<Rightarrow> api \<Rightarrow> jv \<Rightarrow> config \<Rightarrow> world \<Rightarrow> squad_entry list \<Rightarrow> outcome list" where
  "loop_outcomes now a teamId cfg w squadEntries =
     outcomes now a (capped cfg squadEntries) (loop_start now a teamId w)"

text \<open>An entry that needs no request: it carries its payload with a \<open>nationality_id\<close> and the
  nationality object, and the current club, if any, carries its country or has no
  \<open>country_id\<close>.\<close>

definition self_contained :: "int \<Rightarrow> squad_entry \<Rightarrow> bool" where
  "self_contained now e \<longleftrightarrow>
     truthy (se_player_id e) \<and>
     (case se_player e of
        None \<Rightarrow> False
      | Some p \<Rightarrow>
          truthy (pl_nationality_id p) \<and> pl_nationality p \<noteq> None \<and>
          (case findCurrentClub now (pl_teams p) of
             None \<Rightarrow> True
           | Some club \<Rightarrow> t_country club \<noteq> None \<or> \<not> truthy (t_country_id club)))"

text \<open>The document identifier of the payload an entry carries.\<close>

definition included_doc_id :: "squad_entry \<Rightarrow> jv" where
  "included_doc_id e = (case se_player e of None \<Rightarrow> Undefined | Some p \<Rightarrow> playerDocId p)"

section \<open>Vocabulary of the store properties\<close>

text \<open>A document as the driver writes it.\<close>

definition bson_doc :: "doc \<Rightarrow> doc" where
  "bson_doc upd = map (\<lambda>(k, v). (k, bson v)) upd"

text \<open>Every field of \<open>upd\<close> is stored, with the value \<open>upd\<close> gives it.\<close>

definition holds_fields :: "doc \<Rightarrow> doc option \<Rightarrow> bool" where
  "holds_fields upd od =
     (case od of None \<Rightarrow> False | Some d \<Rightarrow> list_all (\<lambda>(k, v). map_of d k = Some (bson v)) upd)"

text \<open>
  After the writes, the collection \<open>after\<close> holds exactly one document under \<open>i\<close>, each of
  its fields that \<open>upd\<close> names has the value of \<open>upd\<close>, and when \<open>before\<close> held no document
  under \<open>i\<close> the stored document is \<open>upd\<close> and nothing else.
\<close>

definition last_write_wins :: "jv \<Rightarrow> doc \<Rightarrow> collection \<Rightarrow> collection \<Rightarrow> bool" where
  "last_write_wins i upd before after \<longleftrightarrow>
     count_docs i after = 1 \<and>
     holds_fields upd (find_doc i after) \<and>
     (find_doc i before = None \<longrightarrow> find_doc i after = Some (bson_doc upd))"

text \<open>The value stored under the field \<open>k\<close> of the document with identifier \<open>i\<close>.\<close>

definition stored_field :: "jv \<Rightarrow> string \<Rightarrow> collection \<Rightarrow> dbval option" where
  "stored_field i k c = (case find_doc i c of None \<Rightarrow> None | Some d \<Rightarrow> map_of d k)"

text \<open>
  The collection \<open>after\<close> holds exactly one document under \<open>i\<close>; each field that \<open>written\<close>
  lists is stored with the value listed; and when \<open>before\<close> held no document under \<open>i\<close>, the
  stored document is \<open>written\<close>, field for field, and nothing else.
\<close>

definition holds_exactly :: "jv \<Rightarrow> doc \<Rightarrow> collection \<Rightarrow> collection \<Rightarrow> bool" where
  "holds_exactly i written before after \<longleftrightarrow>
     count_docs i after = 1 \<and>
     list_all (\<lambda>(k, v). stored_field i k after = Some v) written \<and>
     (find_doc i before = None \<longrightarrow> find_doc i after = Some written)"

section \<open>Vocabulary of the client properties\<close>

text \<open>The events a run adds to the ones already there.\<close>

definition new_events :: "request_state \<Rightarrow> request_state \<Rightarrow> event list" where
  "new_events st st' = drop (length (events st)) (events st')"

section \<open>The claims' own vocabulary\<close>

text \<open>The claim's words, "internal whitespace collapsed to single spaces": runs of spaces
  become one space. Used to state claim C8 only; the source has no such step.\<close>

fun spec_collapse_whitespace :: "string \<Rightarrow> string" where
  "spec_collapse_whitespace (c # d # cs) =
     (if c = CHR '' '' \<and> d = CHR '' '' then spec_collapse_whitespace (d # cs)
      else c # spec_collapse_whitespace (d # cs))"
| "spec_collapse_whitespace cs = cs"

text \<open>The spec's words: an identifier of the form \<open><entity>:<provider>:<provider-local-key>\<close>.\<close>

definition spec_canonical_id :: "string \<Rightarrow> string \<Rightarrow> string \<Rightarrow> string" where
  "spec_canonical_id entity provider key = entity @ '':'' @ provider @ '':'' @ key"

text \<open>
  The claim's words for the upserts, "the value supplied by the second call", read on the
  input's own fields: a field that is given is stored as given, a field that is not given
  (\<open>undefined\<close>, \<open>null\<close>, \<open>false\<close>, \<open>0\<close> or the empty string) is stored as its default, and
  \<open>undefined\<close> itself is stored as \<open>null\<close>.
\<close>

definition spec_given :: "jv \<Rightarrow> jv \<Rightarrow> jv" where
  "spec_given v d =
     (if v = Undefined \<or> v = Null \<or> v = Bool False \<or> v = Num 0 \<or> v = Str [] then d else v)"

definition spec_stored :: "jv \<Rightarrow> jv" where
  "spec_stored v = (if v = Undefined then Null else v)"

text \<open>A country reference and a club reference as supplied, all \<open>null\<close> when none comes.\<close>

definition spec_country :: "country_info option \<Rightarrow> dbval" where
  "spec_country c =
     (case c of
        None \<Rightarrow> Obj [(''id'', Null), (''name'', Null), (''code'', Null)]
      | Some k \<Rightarrow> Obj [(''id'', spec_stored (ci_id k)), (''name'', spec_stored (ci_name k)),
                       (''code'', spec_stored (ci_code k))])"

definition spec_club :: "club_info option \<Rightarrow> dbval" where
  "spec_club c =
     (case c of
        None \<Rightarrow> Obj [(''id'', Null), (''name'', Null)]
      | Some k \<Rightarrow> Obj [(''id'', spec_stored (cl_id k)), (''name'', spec_stored (cl_name k))])"


text \<open>No end date; an end date after \<open>now\<close>; an end date that has passed.\<close>

definition spec_no_end_date :: "membership \<Rightarrow> bool" where
  "spec_no_end_date m = (case t_pivot m of None \<Rightarrow> True | Some p \<Rightarrow> p_end p = None)"

definition spec_future_end :: "int \<Rightarrow> membership \<Rightarrow> bool" where
  "spec_future_end now m =
     (case t_pivot m of
        None \<Rightarrow> False
      | Some p \<Rightarrow> (case p_end p of Some (Time e) \<Rightarrow> now < e | _ \<Rightarrow> False))"


text \<open>The first activity tier: no end date, or an end date in the future.\<close>

definition spec_current :: "int \<Rightarrow> membership \<Rightarrow> bool" where
  "spec_current now m \<longleftrightarrow> spec_no_end_date m \<or> spec_future_end now m"






section \<open>Example inputs\<close>

definition empty_db :: db where
  "empty_db = \<lparr> teams_col = [], players_col = [], squads_col = [], countries_col = [] \<rparr>"

definition ex_team1 :: teamData where
  "ex_team1 = \<lparr> td_id = Undefined, td_provider = Undefined, td_providerId = Num 18710,
       td_name = Str ''Spain'', td_type = Str ''national'',
       td_country = Some \<lparr> ci_id = Num 32, ci_name = Str ''Spain'', ci_code = Str ''ES'' \<rparr>,
       td_image_path = Undefined \<rparr>"

definition ex_team2 :: teamData where
  "ex_team2 = ex_team1 \<lparr> td_name := Str ''Spain A'', td_image_path := Str ''spain.png'' \<rparr>"

definition ex_player1 :: playerData where
  "ex_player1 = \<lparr> pd_id = Undefined, pd_provider = Undefined, pd_providerId = Num 96611,
       pd_name = Str ''Pedri'', pd_position = Undefined,
       pd_nationality = Some \<lparr> ci_id = Num 32, ci_name = Str ''Spain'', ci_code = Str ''ES'' \<rparr>,
       pd_image_path = Undefined,
       pd_currentClub = Some \<lparr> cl_id = Num 83, cl_name = Str ''Barcelona'' \<rparr>,
       pd_currentClubCountry = None \<rparr>"

definition ex_player2 :: playerData where
  "ex_player2 = ex_player1 \<lparr> pd_position := Str ''MID'', pd_currentClub := None \<rparr>"

definition ex_squad1 :: squadData where
  "ex_squad1 = \<lparr> sd_id = Undefined, sd_provider = Undefined, sd_teamId = Num 18710,
       sd_teamName = Undefined, sd_playerIds = Some [Str ''player:sportmonks:96611''] \<rparr>"

definition ex_squad2 :: squadData where
  "ex_squad2 = ex_squad1 \<lparr> sd_playerIds := Some [Str ''player:sportmonks:7'', Str ''player:sportmonks:96611''] \<rparr>"

definition ex_payload :: player where
  "ex_payload = \<lparr> pl_id = Num 7, pl_display_name = Undefined, pl_common_name = Null,
      pl_firstname = Str ''Ana  Maria'', pl_lastname = Str ''Lopez'', pl_image_path = Undefined,
      pl_nationality_id = Undefined, pl_nationality = None, pl_teams = None \<rparr>"

definition ex_nameless :: player where
  "ex_nameless = ex_payload \<lparr> pl_firstname := Str [], pl_lastname := Undefined \<rparr>"

definition ex_country :: countryData where
  "ex_country = \<lparr> cd_providerId = Num 32, cd_name = Str ''Spain'', cd_code = Str ''ES'' \<rparr>"

definition ex_now :: int where
  "ex_now = 1700000000000"

definition ex_national :: membership where
  "ex_national = \<lparr> t_id = Num 18710, t_name = Str ''Spain'', t_type = Str ''national'',
      t_pivot = None, t_country = None, t_country_id = Num 32 \<rparr>"

definition ex_old_club :: membership where
  "ex_old_club = \<lparr> t_id = Num 2975, t_name = Str ''Las Palmas'', t_type = Str ''domestic'',
      t_pivot = Some \<lparr> p_start = Some (Time 1435708800000), p_end = Some (Time 1561852800000) \<rparr>,
      t_country = None, t_country_id = Num 32 \<rparr>"

definition ex_older_club :: membership where
  "ex_older_club = \<lparr> t_id = Num 3000, t_name = Str ''Juventud Laguna'', t_type = Str ''club'',
      t_pivot = Some \<lparr> p_start = Some (Time 1341100800000), p_end = Some (Time 1435622400000) \<rparr>,
      t_country = None, t_country_id = Undefined \<rparr>"

definition ex_current_club :: membership where
  "ex_current_club = \<lparr> t_id = Num 83, t_name = Str ''Barcelona'', t_type = Str ''domestic'',
      t_pivot = Some \<lparr> p_start = Some (Time 1561939200000), p_end = None \<rparr>,
      t_country = None, t_country_id = Num 32 \<rparr>"

definition ex_loan_club :: membership where
  "ex_loan_club = \<lparr> t_id = Num 90, t_name = Str ''Girona'', t_type = Undefined,
      t_pivot = Some \<lparr> p_start = Some (Time 1530403200000), p_end = Some (Time 1900000000000) \<rparr>,
      t_country = None, t_country_id = Num 32 \<rparr>"

definition ex_long_contract :: membership where
  "ex_long_contract = \<lparr> t_id = Num 62, t_name = Str ''Rangers'', t_type = Str ''club'',
      t_pivot = Some \<lparr> p_start = Some (Time 1277942400000), p_end = Some (Time 1900000000000) \<rparr>,
      t_country = None, t_country_id = Undefined \<rparr>"

definition ex_no_start :: membership where
  "ex_no_start = \<lparr> t_id = Num 77, t_name = Str ''Tenerife'', t_type = Null,
      t_pivot = Some \<lparr> p_start = None, p_end = Some (Time 1435622400000) \<rparr>,
      t_country = None, t_country_id = Undefined \<rparr>"

definition ex_bad_start :: membership where
  "ex_bad_start = \<lparr> t_id = Num 78, t_name = Str ''Mensajero'', t_type = Str ''domestic'',
      t_pivot = Some \<lparr> p_start = Some InvalidDate, p_end = Some (Time 1435622400000) \<rparr>,
      t_country = None, t_country_id = Undefined \<rparr>"



definition ex_cache :: client_cache where
  "ex_cache = \<lparr> cache_teams = Map.empty, cache_players = Map.empty, cache_countries = Map.empty \<rparr>"

definition ex_api_down :: api where
  "ex_api_down = \<lparr> squads_endpoint = (\<lambda>_. Inl (Error ''fetch failed'')),
      teams_endpoint = (\<lambda>_. Inl (Error ''fetch failed'')),
      players_endpoint = (\<lambda>_. Inl (Error ''fetch failed'')),
      countries_endpoint = (\<lambda>_. Inl (Error ''fetch failed'')) \<rparr>"

definition ex_idle :: request_state where
  "ex_idle = \<lparr> totalApiCalls = 0, events = [] \<rparr>"

definition ex_abort :: js_error where
  "ex_abort = \<lparr> err_name = ''AbortError'', err_code = None,
      err_message = ''This operation was aborted'' \<rparr>"

definition ex_reset :: js_error where
  "ex_reset = \<lparr> err_name = ''Error'', err_code = Some ''ECONNRESET'',
      err_message = ''socket hang up'' \<rparr>"

definition ex_429_500_200 :: "nat \<Rightarrow> string fetch_result" where
  "ex_429_500_200 i =
     (if i = 0 then Response 429 ''Too Many Requests'' (Inl (Error ''Unexpected token''))
      else if i = 1 then Response 500 ''Internal Server Error'' (Inl (Error ''Unexpected token''))
      else Response 200 ''{}'' (Inr ''payload''))"

definition ex_timeout_then_200 :: "nat \<Rightarrow> string fetch_result" where
  "ex_timeout_then_200 i = (if i = 0 then Rejected ex_abort else Response 200 ''{}'' (Inr ''payload''))"

definition ex_reset_then_200 :: "nat \<Rightarrow> string fetch_result" where
  "ex_reset_then_200 i = (if i = 0 then Rejected ex_reset else Response 200 ''{}'' (Inr ''payload''))"

definition ex_404_fetch :: "nat \<Rightarrow> string fetch_result" where
  "ex_404_fetch i = Response 404 ''Could not fetch player 5'' (Inr [])"

definition ex_404_plain :: "nat \<Rightarrow> string fetch_result" where
  "ex_404_plain i = Response 404 ''Not Found'' (Inr [])"

definition ex_spain :: country where
  "ex_spain = \<lparr> c_id = Num 32, c_name = Str ''Spain'', c_official_name = Undefined,
      c_iso2 = Str ''ES'', c_fifa_name = Str ''ESP'' \<rparr>"

definition ex_entry :: "int \<Rightarrow> squad_entry" where
  "ex_entry i =
     \<lparr> se_player_id = Num i,
       se_player = Some \<lparr> pl_id = Num i, pl_display_name = Undefined, pl_common_name = Undefined,
         pl_firstname = Str ''Player'', pl_lastname = Str (show_int i), pl_image_path = Undefined,
         pl_nationality_id = Num 32, pl_nationality = Some ex_spain, pl_teams = None \<rparr> \<rparr>"

definition ex_bare_entry :: "int \<Rightarrow> squad_entry" where
  "ex_bare_entry i = \<lparr> se_player_id = Num i, se_player = None \<rparr>"


definition ex_roster3 :: "squad_entry list" where
  "ex_roster3 = [ex_entry 1, ex_bare_entry 2, ex_entry 3]"

definition ex_team :: team where
  "ex_team = \<lparr> tm_id = Num 18710, tm_name = Str ''Spain'', tm_type = Str ''national'',
      tm_image_path = Undefined, tm_country = Some ex_spain \<rparr>"

definition ex_api :: "squad_entry list \<Rightarrow> api" where
  "ex_api roster =
     \<lparr> squads_endpoint = (\<lambda>_. Inr (Some roster)),
       teams_endpoint = (\<lambda>_. Inr (Some ex_team)),
       players_endpoint = (\<lambda>_. Inl (Error ''API Error 404: Not Found'')),
       countries_endpoint = (\<lambda>_. Inr None) \<rparr>"

definition ex_api_nodata :: api where
  "ex_api_nodata = (ex_api ex_roster3) \<lparr> players_endpoint := (\<lambda>_. Inr None) \<rparr>"

definition ex_cfg :: config where
  "ex_cfg = \<lparr> TEAM_IDS = [Num 18710], MAX_PLAYERS_PER_SQUAD = 24 \<rparr>"

definition ex_world :: world where
  "ex_world = \<lparr> cache = ex_cache, store = empty_db \<rparr>"

definition ex_api_team_down :: api where
  "ex_api_team_down =
     (ex_api ex_roster3) \<lparr> teams_endpoint := (\<lambda>_. Inl (Error ''API Error 404: Not Found'')) \<rparr>"

section \<open>Properties\<close>

subsection \<open>Scalars\<close>

lemma show_nat_small: "n < 10 \<Longrightarrow> show_nat n = [digit n]"
  by (simp add: show_nat.simps)

lemma show_nat_big: "\<not> n < 10 \<Longrightarrow> show_nat n = show_nat (n div 10) @ [digit (n mod 10)]"
  by (subst show_nat.simps) simp

lemmas show_int_eval = show_int_def show_nat_small show_nat_big digit_def

subsection \<open>The update operator\<close>

lemma truthy_bson_jv: "truthy i \<Longrightarrow> bson_jv i = i"
  by (cases i) auto

lemma map_of_apply_set:
  "distinct (map fst upd) \<Longrightarrow>
   map_of (apply_set upd d) k = (case map_of upd k of Some v \<Rightarrow> Some (bson v) | None \<Rightarrow> map_of d k)"
proof (induction upd arbitrary: d)
  case Nil
  then show ?case by (simp add: apply_set_def)
next
  case (Cons a upd)
  obtain k' v' where a: "a = (k', v')" by (cases a)
  have d: "distinct (map fst upd)" and nin: "k' \<notin> fst ` set upd" using Cons.prems a by auto
  have none: "map_of upd k' = None" using nin by (simp add: map_of_eq_None_iff)
  have step: "apply_set ((k', v') # upd) d = apply_set upd (AList.update k' (bson v') d)"
    by (simp add: apply_set_def)
  show ?case
  proof (cases "k = k'")
    case True
    then show ?thesis using Cons.IH[OF d, of "AList.update k' (bson v') d"] none a
      by (simp add: step update_conv')
  next
    case False
    then show ?thesis using Cons.IH[OF d, of "AList.update k' (bson v') d"] a
      by (simp add: step update_conv' split: option.splits)
  qed
qed

lemma doc_id_apply_set:
  assumes "distinct (map fst upd)" "map_of upd ''_id'' = Some (V i)" "truthy i"
  shows "doc_id (apply_set upd d) = Some (V i)"
  using assms by (simp add: doc_id_def map_of_apply_set truthy_bson_jv)

lemma doc_id_apply_set_keep:
  assumes "distinct (map fst upd)" "map_of upd ''_id'' = Some (V i)" "truthy i" 
  shows "doc_id (apply_set upd d) = Some (V j) \<longleftrightarrow> i = j"
  using doc_id_apply_set[OF assms] by auto

lemma find_updateOne_same:
  assumes "distinct (map fst upd)" "map_of upd ''_id'' = Some (V i)" "truthy i"
  shows "find_doc i (updateOne i upd c) = Some (apply_set upd (base_doc i c))"
  using doc_id_apply_set[OF assms]
  by (induction c) (auto simp: find_doc_def base_doc_def)

lemma find_updateOne_other:
  assumes "distinct (map fst upd)" "map_of upd ''_id'' = Some (V i)" "truthy i" "j \<noteq> i"
  shows "find_doc j (updateOne i upd c) = find_doc j c"
  using doc_id_apply_set[OF assms(1-3)] assms(4)
  by (induction c) (auto simp: find_doc_def)

lemma count_updateOne_same:
  assumes "distinct (map fst upd)" "map_of upd ''_id'' = Some (V i)" "truthy i"
  shows "count_docs i (updateOne i upd c) = max 1 (count_docs i c)"
  using doc_id_apply_set[OF assms]
  by (induction c) (auto simp: count_docs_def)

lemma count_updateOne_other:
  assumes "distinct (map fst upd)" "map_of upd ''_id'' = Some (V i)" "truthy i" "j \<noteq> i"
  shows "count_docs j (updateOne i upd c) = count_docs j c"
  using doc_id_apply_set[OF assms(1-3)] assms(4)
  by (induction c) (auto simp: count_docs_def)

lemma length_updateOne:
  "length (updateOne i upd c) = (if find_doc i c = None then Suc (length c) else length c)"
  by (induction c) (auto simp: find_doc_def)

subsection \<open>Upserts\<close>

lemma truthy_team_id: "truthy (team_id t)" by (simp add: team_id_def js_or_def)
lemma truthy_player_id: "truthy (player_id t)" by (simp add: player_id_def js_or_def)
lemma truthy_squad_id: "truthy (squad_id t)" by (simp add: squad_id_def js_or_def)
lemma truthy_country_id: "truthy (country_id t)" by (simp add: country_id_def)

lemma team_doc_keys: "distinct (map fst (team_doc n t))" "map_of (team_doc n t) ''_id'' = Some (V (team_id t))"
  by (simp_all add: team_doc_def)
lemma player_doc_keys: "distinct (map fst (player_doc n t))" "map_of (player_doc n t) ''_id'' = Some (V (player_id t))"
  by (simp_all add: player_doc_def)
lemma squad_doc_keys: "distinct (map fst (squad_doc n t))" "map_of (squad_doc n t) ''_id'' = Some (V (squad_id t))"
  by (simp_all add: squad_doc_def)
lemma country_doc_keys: "distinct (map fst (country_doc n t))" "map_of (country_doc n t) ''_id'' = Some (V (country_id t))"
  by (simp_all add: country_doc_def)

lemma apply_set_fresh_team:
  "apply_set (team_doc n2 t2) (apply_set (team_doc n1 t1) [(''_id'', V i)]) = bson_doc (team_doc n2 t2)"
  by (simp add: apply_set_def team_doc_def bson_doc_def)
lemma apply_set_fresh_player:
  "apply_set (player_doc n2 t2) (apply_set (player_doc n1 t1) [(''_id'', V i)]) = bson_doc (player_doc n2 t2)"
  by (simp add: apply_set_def player_doc_def bson_doc_def)
lemma apply_set_fresh_squad:
  "apply_set (squad_doc n2 t2) (apply_set (squad_doc n1 t1) [(''_id'', V i)]) = bson_doc (squad_doc n2 t2)"
  by (simp add: apply_set_def squad_doc_def bson_doc_def)

lemma holds_fields_apply_set:
  assumes "distinct (map fst upd)"
  shows "holds_fields upd (Some (apply_set upd d))"
  unfolding holds_fields_def using assms
  by (auto simp: list_all_iff map_of_apply_set)

lemma base_doc_updateOne:
  assumes "distinct (map fst upd)" "map_of upd ''_id'' = Some (V i)" "truthy i"
  shows "base_doc i (updateOne i upd c) = apply_set upd (base_doc i c)"
  by (simp add: base_doc_def[of i "updateOne i upd c"] find_updateOne_same[OF assms])

lemma updateOne_twice:
  assumes k1: "distinct (map fst u1)" "map_of u1 ''_id'' = Some (V i)"
      and k2: "distinct (map fst u2)" "map_of u2 ''_id'' = Some (V i)"
      and t: "truthy i" and c: "count_docs i c \<le> 1"
      and fresh: "apply_set u2 (apply_set u1 [(''_id'', V i)]) = bson_doc u2"
  shows "last_write_wins i u2 c (updateOne i u2 (updateOne i u1 c))"
proof -
  have f: "find_doc i (updateOne i u2 (updateOne i u1 c)) = Some (apply_set u2 (apply_set u1 (base_doc i c)))"
    by (simp add: find_updateOne_same[OF k2 t] base_doc_updateOne[OF k1 t])
  have n: "count_docs i (updateOne i u2 (updateOne i u1 c)) = 1"
    using c by (simp add: count_updateOne_same[OF k2 t] count_updateOne_same[OF k1 t])
  show ?thesis unfolding last_write_wins_def
    by (simp add: f n holds_fields_apply_set[OF k2(1)] base_doc_def fresh)
qed

lemma upsertTeam_twice:
  assumes "team_id t1 = team_id t2" "count_docs (team_id t2) (teams_col s) \<le> 1"
  shows "last_write_wins (team_id t2) (team_doc n2 t2) (teams_col s)
           (teams_col (snd (upsertTeam n2 t2 (snd (upsertTeam n1 t1 s)))))"
  using updateOne_twice[OF team_doc_keys[of n1 t1, unfolded assms(1)] team_doc_keys[of n2 t2] truthy_team_id assms(2) apply_set_fresh_team]
  by (simp add: upsertTeam_def assms(1))

lemma upsertPlayer_twice:
  assumes "player_id t1 = player_id t2" "count_docs (player_id t2) (players_col s) \<le> 1"
  shows "last_write_wins (player_id t2) (player_doc n2 t2) (players_col s)
           (players_col (snd (upsertPlayer n2 t2 (snd (upsertPlayer n1 t1 s)))))"
  using updateOne_twice[OF player_doc_keys[of n1 t1, unfolded assms(1)] player_doc_keys[of n2 t2] truthy_player_id assms(2) apply_set_fresh_player]
  by (simp add: upsertPlayer_def assms(1))

lemma upsertSquad_twice:
  assumes "squad_id t1 = squad_id t2" "count_docs (squad_id t2) (squads_col s) \<le> 1"
  shows "last_write_wins (squad_id t2) (squad_doc n2 t2) (squads_col s)
           (squads_col (snd (upsertSquad n2 t2 (snd (upsertSquad n1 t1 s)))))"
  using updateOne_twice[OF squad_doc_keys[of n1 t1, unfolded assms(1)] squad_doc_keys[of n2 t2] truthy_squad_id assms(2) apply_set_fresh_squad]
  by (simp add: upsertSquad_def assms(1))

subsection \<open>Claim C1: upserting twice\<close>

lemma last_write_wins_exactly:
  "last_write_wins i upd before after \<Longrightarrow> bson_doc upd = written \<Longrightarrow>
   holds_exactly i written before after"
  by (auto simp: last_write_wins_def holds_exactly_def holds_fields_def stored_field_def
      bson_doc_def list_all_iff split: option.splits)

lemma js_or_spec_given: "js_or a b = spec_given a b"
  by (cases a) (auto simp: js_or_def spec_given_def)

lemma bson_jv_spec_stored: "bson_jv v = spec_stored v"
  by (cases v) (auto simp: spec_stored_def)

lemma spec_stored_given: "b \<noteq> Undefined \<Longrightarrow> spec_stored (spec_given a b) = spec_given a b"
  by (auto simp: spec_stored_def spec_given_def)

lemma spec_stored_Null: "spec_stored Null = Null"
  by (simp add: spec_stored_def)

lemma spec_team_written:
  "bson_doc (team_doc n t) =
     [(''_id'', V (spec_given (td_id t) (Str (''team:sportmonks:'' @ to_string (td_providerId t))))),
      (''provider'', V (spec_given (td_provider t) (Str ''sportmonks''))),
      (''providerId'', V (spec_stored (td_providerId t))),
      (''name'', V (spec_given (td_name t) Null)),
      (''type'', V (spec_given (td_type t) Null)),
      (''country'', spec_country (td_country t)),
      (''image_path'', V (spec_given (td_image_path t) Null)),
      (''updatedAt'', Date n)]"
  by (simp add: bson_doc_def team_doc_def team_id_def spec_stored_given country_obj_def
      null_country_def js_or_spec_given bson_jv_spec_stored spec_stored_Null spec_country_def split: option.splits)

lemma spec_player_written:
  "bson_doc (player_doc n p) =
     [(''_id'', V (spec_given (pd_id p) (Str (''player:sportmonks:'' @ to_string (pd_providerId p))))),
      (''provider'', V (spec_given (pd_provider p) (Str ''sportmonks''))),
      (''providerId'', V (spec_stored (pd_providerId p))),
      (''name'', V (spec_given (pd_name p) Null)),
      (''position'', V (spec_given (pd_position p) Null)),
      (''nationality'', spec_country (pd_nationality p)),
      (''image_path'', V (spec_given (pd_image_path p) Null)),
      (''currentClub'', spec_club (pd_currentClub p)),
      (''currentClubCountry'', spec_country (pd_currentClubCountry p)),
      (''updatedAt'', Date n)]"
  by (simp add: bson_doc_def player_doc_def player_id_def spec_stored_given country_obj_def
      club_obj_def null_country_def null_club_def js_or_spec_given bson_jv_spec_stored spec_stored_Null
      spec_country_def spec_club_def split: option.splits)

lemma spec_squad_written:
  "bson_doc (squad_doc n q) =
     [(''_id'', V (spec_given (sd_id q)
                  (Str (''squad:sportmonks:'' @ to_string (sd_teamId q) @ '':current'')))),
      (''provider'', V (spec_given (sd_provider q) (Str ''sportmonks''))),
      (''teamId'', V (spec_stored (sd_teamId q))),
      (''teamName'', V (spec_given (sd_teamName q) Null)),
      (''playerIds'', Arr (case sd_playerIds q of None \<Rightarrow> [] | Some ids \<Rightarrow> map spec_stored ids)),
      (''fetchedAt'', Date n)]"
  by (simp add: bson_doc_def squad_doc_def squad_id_def js_or_spec_given spec_stored_given
      bson_jv_spec_stored split: option.splits)

text \<open>
  Claim C1. Two calls of \<open>upsertTeam\<close>, \<open>upsertPlayer\<close> or \<open>upsertSquad\<close> whose inputs
  resolve to the same identifier, on a collection that holds at most one document under
  that identifier, leave exactly one document under it, and both calls return a document
  with that identifier: the caller's \<open>_id\<close> when one is given, the computed key otherwise.
  Every field an upsert writes then holds what the second call's input supplies: the
  input's field when it is given and its default otherwise (the provider tag \<open>sportmonks\<close>,
  \<open>null\<close> for a scalar, all-\<open>null\<close> references, the empty list of players), and the time
  of the second call. When no document was stored before, the stored document consists of
  these fields and nothing else, so no value of the first call remains.
\<close>

theorem upsert_twice_last_write_wins:
  assumes "team_id t1 = team_id t2" and "count_docs (team_id t2) (teams_col s) \<le> 1"
      and "player_id p1 = player_id p2" and "count_docs (player_id p2) (players_col s) \<le> 1"
      and "squad_id q1 = squad_id q2" and "count_docs (squad_id q2) (squads_col s) \<le> 1"
  shows "holds_exactly (team_id t2)
           [(''_id'', V (spec_given (td_id t2)
                          (Str (''team:sportmonks:'' @ to_string (td_providerId t2))))),
            (''provider'', V (spec_given (td_provider t2) (Str ''sportmonks''))),
            (''providerId'', V (spec_stored (td_providerId t2))),
            (''name'', V (spec_given (td_name t2) Null)),
            (''type'', V (spec_given (td_type t2) Null)),
            (''country'', spec_country (td_country t2)),
            (''image_path'', V (spec_given (td_image_path t2) Null)),
            (''updatedAt'', Date n2)]
           (teams_col s) (teams_col (snd (upsertTeam n2 t2 (snd (upsertTeam n1 t1 s))))) \<and>
         holds_exactly (player_id p2)
           [(''_id'', V (spec_given (pd_id p2)
                          (Str (''player:sportmonks:'' @ to_string (pd_providerId p2))))),
            (''provider'', V (spec_given (pd_provider p2) (Str ''sportmonks''))),
            (''providerId'', V (spec_stored (pd_providerId p2))),
            (''name'', V (spec_given (pd_name p2) Null)),
            (''position'', V (spec_given (pd_position p2) Null)),
            (''nationality'', spec_country (pd_nationality p2)),
            (''image_path'', V (spec_given (pd_image_path p2) Null)),
            (''currentClub'', spec_club (pd_currentClub p2)),
            (''currentClubCountry'', spec_country (pd_currentClubCountry p2)),
            (''updatedAt'', Date n2)]
           (players_col s) (players_col (snd (upsertPlayer n2 p2 (snd (upsertPlayer n1 p1 s))))) \<and>
         holds_exactly (squad_id q2)
           [(''_id'', V (spec_given (sd_id q2)
                          (Str (''squad:sportmonks:'' @ to_string (sd_teamId q2) @ '':current'')))),
            (''provider'', V (spec_given (sd_provider q2) (Str ''sportmonks''))),
            (''teamId'', V (spec_stored (sd_teamId q2))),
            (''teamName'', V (spec_given (sd_teamName q2) Null)),
            (''playerIds'',
               Arr (case sd_playerIds q2 of None \<Rightarrow> [] | Some ids \<Rightarrow> map spec_stored ids)),
            (''fetchedAt'', Date n2)]
           (squads_col s) (squads_col (snd (upsertSquad n2 q2 (snd (upsertSquad n1 q1 s))))) \<and>
         doc_id (fst (upsertTeam n1 t1 s)) = doc_id (fst (upsertTeam n2 t2 (snd (upsertTeam n1 t1 s)))) \<and>
         doc_id (fst (upsertTeam n2 t2 (snd (upsertTeam n1 t1 s)))) =
           Some (V (spec_given (td_id t2) (Str (''team:sportmonks:'' @ to_string (td_providerId t2))))) \<and>
         doc_id (fst (upsertPlayer n1 p1 s)) =
           doc_id (fst (upsertPlayer n2 p2 (snd (upsertPlayer n1 p1 s)))) \<and>
         doc_id (fst (upsertPlayer n2 p2 (snd (upsertPlayer n1 p1 s)))) =
           Some (V (spec_given (pd_id p2)
                     (Str (''player:sportmonks:'' @ to_string (pd_providerId p2))))) \<and>
         doc_id (fst (upsertSquad n1 q1 s)) =
           doc_id (fst (upsertSquad n2 q2 (snd (upsertSquad n1 q1 s)))) \<and>
         doc_id (fst (upsertSquad n2 q2 (snd (upsertSquad n1 q1 s)))) =
           Some (V (spec_given (sd_id q2)
                     (Str (''squad:sportmonks:'' @ to_string (sd_teamId q2) @ '':current''))))"
proof -
  have ids: "doc_id (fst (upsertTeam n1 t1 s)) = Some (V (team_id t2))"
    "doc_id (fst (upsertTeam n2 t2 (snd (upsertTeam n1 t1 s)))) = Some (V (team_id t2))"
    "doc_id (fst (upsertPlayer n1 p1 s)) = Some (V (player_id p2))"
    "doc_id (fst (upsertPlayer n2 p2 (snd (upsertPlayer n1 p1 s)))) = Some (V (player_id p2))"
    "doc_id (fst (upsertSquad n1 q1 s)) = Some (V (squad_id q2))"
    "doc_id (fst (upsertSquad n2 q2 (snd (upsertSquad n1 q1 s)))) = Some (V (squad_id q2))"
    using assms(1,3,5)
    by (simp_all add: doc_id_def upsertTeam_def upsertPlayer_def upsertSquad_def
        team_doc_keys player_doc_keys squad_doc_keys)
  have keys: "team_id t2 = spec_given (td_id t2) (Str (''team:sportmonks:'' @ to_string (td_providerId t2)))"
    "player_id p2 = spec_given (pd_id p2) (Str (''player:sportmonks:'' @ to_string (pd_providerId p2)))"
    "squad_id q2 = spec_given (sd_id q2)
        (Str (''squad:sportmonks:'' @ to_string (sd_teamId q2) @ '':current''))"
    by (simp_all add: team_id_def player_id_def squad_id_def js_or_spec_given)
  have t: "holds_exactly (team_id t2) (bson_doc (team_doc n2 t2))
           (teams_col s) (teams_col (snd (upsertTeam n2 t2 (snd (upsertTeam n1 t1 s)))))"
    by (rule last_write_wins_exactly[OF upsertTeam_twice[OF assms(1,2)] refl])
  have p: "holds_exactly (player_id p2) (bson_doc (player_doc n2 p2))
           (players_col s) (players_col (snd (upsertPlayer n2 p2 (snd (upsertPlayer n1 p1 s)))))"
    by (rule last_write_wins_exactly[OF upsertPlayer_twice[OF assms(3,4)] refl])
  have q: "holds_exactly (squad_id q2) (bson_doc (squad_doc n2 q2))
           (squads_col s) (squads_col (snd (upsertSquad n2 q2 (snd (upsertSquad n1 q1 s)))))"
    by (rule last_write_wins_exactly[OF upsertSquad_twice[OF assms(5,6)] refl])
  show ?thesis
    using t[unfolded spec_team_written] p[unfolded spec_player_written]
      q[unfolded spec_squad_written] ids[unfolded keys]
    by (intro conjI) simp_all
qed

theorem upsert_twice_witness:
  "team_id ex_team1 = team_id ex_team2 \<and> count_docs (team_id ex_team2) (teams_col empty_db) \<le> 1 \<and>
   player_id ex_player1 = player_id ex_player2 \<and>
   count_docs (player_id ex_player2) (players_col empty_db) \<le> 1 \<and>
   squad_id ex_squad1 = squad_id ex_squad2 \<and>
   count_docs (squad_id ex_squad2) (squads_col empty_db) \<le> 1 \<and>
   team_id ex_team2 = Str ''team:sportmonks:18710'' \<and>
   player_id ex_player2 = Str ''player:sportmonks:96611'' \<and>
   squad_id ex_squad2 = Str ''squad:sportmonks:18710:current'' \<and>
   teams_col (snd (upsertTeam 1000 ex_team1 empty_db)) =
    [[(''_id'', V (Str ''team:sportmonks:18710'')), (''provider'', V (Str ''sportmonks'')),
      (''providerId'', V (Num 18710)), (''name'', V (Str ''Spain'')), (''type'', V (Str ''national'')),
      (''country'', Obj [(''id'', Num 32), (''name'', Str ''Spain''), (''code'', Str ''ES'')]),
      (''image_path'', V Null), (''updatedAt'', Date 1000)]] \<and>
   teams_col (snd (upsertTeam 2000 ex_team2 (snd (upsertTeam 1000 ex_team1 empty_db)))) =
    [[(''_id'', V (Str ''team:sportmonks:18710'')), (''provider'', V (Str ''sportmonks'')),
      (''providerId'', V (Num 18710)), (''name'', V (Str ''Spain A'')), (''type'', V (Str ''national'')),
      (''country'', Obj [(''id'', Num 32), (''name'', Str ''Spain''), (''code'', Str ''ES'')]),
      (''image_path'', V (Str ''spain.png'')), (''updatedAt'', Date 2000)]] \<and>
   players_col (snd (upsertPlayer 1000 ex_player1 empty_db)) =
    [[(''_id'', V (Str ''player:sportmonks:96611'')), (''provider'', V (Str ''sportmonks'')),
      (''providerId'', V (Num 96611)), (''name'', V (Str ''Pedri'')), (''position'', V Null),
      (''nationality'', Obj [(''id'', Num 32), (''name'', Str ''Spain''), (''code'', Str ''ES'')]),
      (''image_path'', V Null),
      (''currentClub'', Obj [(''id'', Num 83), (''name'', Str ''Barcelona'')]),
      (''currentClubCountry'', Obj [(''id'', Null), (''name'', Null), (''code'', Null)]),
      (''updatedAt'', Date 1000)]] \<and>
   players_col (snd (upsertPlayer 2000 ex_player2 (snd (upsertPlayer 1000 ex_player1 empty_db)))) =
    [[(''_id'', V (Str ''player:sportmonks:96611'')), (''provider'', V (Str ''sportmonks'')),
      (''providerId'', V (Num 96611)), (''name'', V (Str ''Pedri'')), (''position'', V (Str ''MID'')),
      (''nationality'', Obj [(''id'', Num 32), (''name'', Str ''Spain''), (''code'', Str ''ES'')]),
      (''image_path'', V Null),
      (''currentClub'', Obj [(''id'', Null), (''name'', Null)]),
      (''currentClubCountry'', Obj [(''id'', Null), (''name'', Null), (''code'', Null)]),
      (''updatedAt'', Date 2000)]] \<and>
   squads_col (snd (upsertSquad 1000 ex_squad1 empty_db)) =
    [[(''_id'', V (Str ''squad:sportmonks:18710:current'')), (''provider'', V (Str ''sportmonks'')),
      (''teamId'', V (Num 18710)), (''teamName'', V Null),
      (''playerIds'', Arr [Str ''player:sportmonks:96611'']), (''fetchedAt'', Date 1000)]] \<and>
   squads_col (snd (upsertSquad 2000 ex_squad2 (snd (upsertSquad 1000 ex_squad1 empty_db)))) =
    [[(''_id'', V (Str ''squad:sportmonks:18710:current'')), (''provider'', V (Str ''sportmonks'')),
      (''teamId'', V (Num 18710)), (''teamName'', V Null),
      (''playerIds'', Arr [Str ''player:sportmonks:7'', Str ''player:sportmonks:96611'']),
      (''fetchedAt'', Date 2000)]] \<and>
   holds_exactly (Str ''team:sportmonks:18710'')
     [(''_id'', V (Str ''team:sportmonks:18710'')), (''provider'', V (Str ''sportmonks'')),
      (''providerId'', V (Num 18710)), (''name'', V (Str ''Spain A'')), (''type'', V (Str ''national'')),
      (''country'', Obj [(''id'', Num 32), (''name'', Str ''Spain''), (''code'', Str ''ES'')]),
      (''image_path'', V (Str ''spain.png'')), (''updatedAt'', Date 2000)]
     (teams_col empty_db)
     (teams_col (snd (upsertTeam 2000 ex_team2 (snd (upsertTeam 1000 ex_team1 empty_db))))) \<and>
   holds_exactly (Str ''player:sportmonks:96611'')
     [(''_id'', V (Str ''player:sportmonks:96611'')), (''provider'', V (Str ''sportmonks'')),
      (''providerId'', V (Num 96611)), (''name'', V (Str ''Pedri'')), (''position'', V (Str ''MID'')),
      (''nationality'', Obj [(''id'', Num 32), (''name'', Str ''Spain''), (''code'', Str ''ES'')]),
      (''image_path'', V Null),
      (''currentClub'', Obj [(''id'', Null), (''name'', Null)]),
      (''currentClubCountry'', Obj [(''id'', Null), (''name'', Null), (''code'', Null)]),
      (''updatedAt'', Date 2000)]
     (players_col empty_db)
     (players_col (snd (upsertPlayer 2000 ex_player2 (snd (upsertPlayer 1000 ex_player1 empty_db))))) \<and>
   holds_exactly (Str ''squad:sportmonks:18710:current'')
     [(''_id'', V (Str ''squad:sportmonks:18710:current'')), (''provider'', V (Str ''sportmonks'')),
      (''teamId'', V (Num 18710)), (''teamName'', V Null),
      (''playerIds'', Arr [Str ''player:sportmonks:7'', Str ''player:sportmonks:96611'']),
      (''fetchedAt'', Date 2000)]
     (squads_col empty_db)
     (squads_col (snd (upsertSquad 2000 ex_squad2 (snd (upsertSquad 1000 ex_squad1 empty_db)))))"
proof -
  have h: "team_id ex_team1 = team_id ex_team2" "count_docs (team_id ex_team2) (teams_col empty_db) \<le> 1"
    "player_id ex_player1 = player_id ex_player2"
    "count_docs (player_id ex_player2) (players_col empty_db) \<le> 1"
    "squad_id ex_squad1 = squad_id ex_squad2"
    "count_docs (squad_id ex_squad2) (squads_col empty_db) \<le> 1"
    by (simp_all add: team_id_def player_id_def squad_id_def ex_team1_def ex_team2_def
        ex_player1_def ex_player2_def ex_squad1_def ex_squad2_def empty_db_def count_docs_def)
  have i: "team_id ex_team2 = Str ''team:sportmonks:18710''"
    "player_id ex_player2 = Str ''player:sportmonks:96611''"
    "squad_id ex_squad2 = Str ''squad:sportmonks:18710:current''"
    by (simp_all add: team_id_def player_id_def squad_id_def ex_team2_def ex_team1_def
        ex_player2_def ex_player1_def ex_squad2_def ex_squad1_def js_or_def show_int_eval)
  have w: "spec_given (td_id ex_team2) (Str (''team:sportmonks:'' @ to_string (td_providerId ex_team2))) =
      Str ''team:sportmonks:18710''"
    "spec_given (td_provider ex_team2) (Str ''sportmonks'') = Str ''sportmonks''"
    "spec_stored (td_providerId ex_team2) = Num 18710"
    "spec_given (td_name ex_team2) Null = Str ''Spain A''"
    "spec_given (td_type ex_team2) Null = Str ''national''"
    "spec_country (td_country ex_team2) =
       Obj [(''id'', Num 32), (''name'', Str ''Spain''), (''code'', Str ''ES'')]"
    "spec_given (td_image_path ex_team2) Null = Str ''spain.png''"
    "spec_given (pd_id ex_player2) (Str (''player:sportmonks:'' @ to_string (pd_providerId ex_player2))) =
      Str ''player:sportmonks:96611''"
    "spec_given (pd_provider ex_player2) (Str ''sportmonks'') = Str ''sportmonks''"
    "spec_stored (pd_providerId ex_player2) = Num 96611"
    "spec_given (pd_name ex_player2) Null = Str ''Pedri''"
    "spec_given (pd_position ex_player2) Null = Str ''MID''"
    "spec_country (pd_nationality ex_player2) =
       Obj [(''id'', Num 32), (''name'', Str ''Spain''), (''code'', Str ''ES'')]"
    "spec_given (pd_image_path ex_player2) Null = Null"
    "spec_club (pd_currentClub ex_player2) = Obj [(''id'', Null), (''name'', Null)]"
    "spec_country (pd_currentClubCountry ex_player2) =
       Obj [(''id'', Null), (''name'', Null), (''code'', Null)]"
    "spec_given (sd_id ex_squad2)
       (Str (''squad:sportmonks:'' @ to_string (sd_teamId ex_squad2) @ '':current'')) =
      Str ''squad:sportmonks:18710:current''"
    "spec_given (sd_provider ex_squad2) (Str ''sportmonks'') = Str ''sportmonks''"
    "spec_stored (sd_teamId ex_squad2) = Num 18710"
    "spec_given (sd_teamName ex_squad2) Null = Null"
    "(case sd_playerIds ex_squad2 of None \<Rightarrow> [] | Some ids \<Rightarrow> map spec_stored ids) =
       [Str ''player:sportmonks:7'', Str ''player:sportmonks:96611'']"
    by (simp_all add: ex_team2_def ex_team1_def ex_player2_def ex_player1_def ex_squad2_def
        ex_squad1_def spec_given_def spec_stored_def spec_country_def spec_club_def show_int_eval)
  have c: "teams_col (snd (upsertTeam 1000 ex_team1 empty_db)) =
    [[(''_id'', V (Str ''team:sportmonks:18710'')), (''provider'', V (Str ''sportmonks'')),
      (''providerId'', V (Num 18710)), (''name'', V (Str ''Spain'')), (''type'', V (Str ''national'')),
      (''country'', Obj [(''id'', Num 32), (''name'', Str ''Spain''), (''code'', Str ''ES'')]),
      (''image_path'', V Null), (''updatedAt'', Date 1000)]]"
    "teams_col (snd (upsertTeam 2000 ex_team2 (snd (upsertTeam 1000 ex_team1 empty_db)))) =
    [[(''_id'', V (Str ''team:sportmonks:18710'')), (''provider'', V (Str ''sportmonks'')),
      (''providerId'', V (Num 18710)), (''name'', V (Str ''Spain A'')), (''type'', V (Str ''national'')),
      (''country'', Obj [(''id'', Num 32), (''name'', Str ''Spain''), (''code'', Str ''ES'')]),
      (''image_path'', V (Str ''spain.png'')), (''updatedAt'', Date 2000)]]"
    by (simp_all add: upsertTeam_def team_doc_def team_id_def ex_team2_def ex_team1_def empty_db_def
      js_or_def show_int_eval apply_set_def doc_id_def country_obj_def)
  have d: "players_col (snd (upsertPlayer 1000 ex_player1 empty_db)) =
    [[(''_id'', V (Str ''player:sportmonks:96611'')), (''provider'', V (Str ''sportmonks'')),
      (''providerId'', V (Num 96611)), (''name'', V (Str ''Pedri'')), (''position'', V Null),
      (''nationality'', Obj [(''id'', Num 32), (''name'', Str ''Spain''), (''code'', Str ''ES'')]),
      (''image_path'', V Null),
      (''currentClub'', Obj [(''id'', Num 83), (''name'', Str ''Barcelona'')]),
      (''currentClubCountry'', Obj [(''id'', Null), (''name'', Null), (''code'', Null)]),
      (''updatedAt'', Date 1000)]]"
    "players_col (snd (upsertPlayer 2000 ex_player2 (snd (upsertPlayer 1000 ex_player1 empty_db)))) =
    [[(''_id'', V (Str ''player:sportmonks:96611'')), (''provider'', V (Str ''sportmonks'')),
      (''providerId'', V (Num 96611)), (''name'', V (Str ''Pedri'')), (''position'', V (Str ''MID'')),
      (''nationality'', Obj [(''id'', Num 32), (''name'', Str ''Spain''), (''code'', Str ''ES'')]),
      (''image_path'', V Null),
      (''currentClub'', Obj [(''id'', Null), (''name'', Null)]),
      (''currentClubCountry'', Obj [(''id'', Null), (''name'', Null), (''code'', Null)]),
      (''updatedAt'', Date 2000)]]"
    by (simp_all add: upsertPlayer_def player_doc_def player_id_def ex_player2_def ex_player1_def
      empty_db_def js_or_def show_int_eval apply_set_def doc_id_def country_obj_def club_obj_def
      null_country_def null_club_def)
  have e: "squads_col (snd (upsertSquad 1000 ex_squad1 empty_db)) =
    [[(''_id'', V (Str ''squad:sportmonks:18710:current'')), (''provider'', V (Str ''sportmonks'')),
      (''teamId'', V (Num 18710)), (''teamName'', V Null),
      (''playerIds'', Arr [Str ''player:sportmonks:96611'']), (''fetchedAt'', Date 1000)]]"
    "squads_col (snd (upsertSquad 2000 ex_squad2 (snd (upsertSquad 1000 ex_squad1 empty_db)))) =
    [[(''_id'', V (Str ''squad:sportmonks:18710:current'')), (''provider'', V (Str ''sportmonks'')),
      (''teamId'', V (Num 18710)), (''teamName'', V Null),
      (''playerIds'', Arr [Str ''player:sportmonks:7'', Str ''player:sportmonks:96611'']),
      (''fetchedAt'', Date 2000)]]"
    by (simp_all add: upsertSquad_def squad_doc_def squad_id_def ex_squad2_def ex_squad1_def
      empty_db_def js_or_def show_int_eval apply_set_def doc_id_def)
  note t = upsert_twice_last_write_wins[OF h, of 2000 1000, unfolded w i]
  show ?thesis
    using h i c d e t by (intro conjI) (simp_all only: simp_thms)
qed

subsection \<open>Claim C8: name resolution\<close>

lemma show_nat_nonempty: "show_nat n \<noteq> []"
  by (subst show_nat.simps) simp

lemma to_string_truthy_nonempty: "truthy v \<Longrightarrow> to_string v \<noteq> []"
  by (cases v) (auto simp: show_int_def show_nat_nonempty)

text \<open>
  Claim C8, as the code has it. \<open>getPlayerName\<close> returns the display name when it is truthy;
  otherwise the common name when it is truthy; otherwise the truthy ones of given and family
  name, joined by one space and otherwise unchanged; and \<open>null\<close> when no name field is
  truthy. The result is never the empty string.
\<close>

theorem getPlayerName_priority:
  "getPlayerName None = Null \<and>
   (truthy (pl_display_name p) \<longrightarrow> getPlayerName (Some p) = pl_display_name p) \<and>
   (\<not> truthy (pl_display_name p) \<and> truthy (pl_common_name p) \<longrightarrow>
      getPlayerName (Some p) = pl_common_name p) \<and>
   (\<not> truthy (pl_display_name p) \<and> \<not> truthy (pl_common_name p) \<longrightarrow>
      getPlayerName (Some p) =
        (if truthy (pl_firstname p) \<and> truthy (pl_lastname p)
           then Str (to_string (pl_firstname p) @ '' '' @ to_string (pl_lastname p))
         else if truthy (pl_firstname p) then Str (to_string (pl_firstname p))
         else if truthy (pl_lastname p) then Str (to_string (pl_lastname p))
         else Null)) \<and>
   getPlayerName (Some p) \<noteq> Str []"
proof -
  have ne: "getPlayerName (Some p) \<noteq> Str []"
    by (auto simp: getPlayerName_def js_or_def)
  show ?thesis
    using ne to_string_truthy_nonempty[of "pl_firstname p"] to_string_truthy_nonempty[of "pl_lastname p"]
    by (simp add: getPlayerName_def js_or_def)
qed

theorem getPlayerName_priority_witness:
  "\<not> truthy (pl_display_name ex_payload) \<and> \<not> truthy (pl_common_name ex_payload) \<and>
   getPlayerName (Some ex_payload) = Str ''Ana  Maria Lopez'' \<and>
   \<not> truthy (pl_display_name ex_nameless) \<and> \<not> truthy (pl_common_name ex_nameless) \<and>
   getPlayerName (Some ex_nameless) = Null \<and>
   truthy (pl_display_name (ex_payload\<lparr>pl_display_name := Str ''Anita''\<rparr>)) \<and>
   getPlayerName (Some (ex_payload\<lparr>pl_display_name := Str ''Anita''\<rparr>)) = Str ''Anita'' \<and>
   \<not> truthy (pl_display_name (ex_payload\<lparr>pl_common_name := Str ''A. Lopez''\<rparr>)) \<and>
   truthy (pl_common_name (ex_payload\<lparr>pl_common_name := Str ''A. Lopez''\<rparr>)) \<and>
   getPlayerName (Some (ex_payload\<lparr>pl_common_name := Str ''A. Lopez''\<rparr>)) = Str ''A. Lopez''"
  using getPlayerName_priority[of ex_payload] getPlayerName_priority[of ex_nameless]
    getPlayerName_priority[of "ex_payload\<lparr>pl_display_name := Str ''Anita''\<rparr>"]
    getPlayerName_priority[of "ex_payload\<lparr>pl_common_name := Str ''A. Lopez''\<rparr>"]
  by (simp add: ex_payload_def ex_nameless_def)

text \<open>
  The claim as stated fails: whitespace inside a name part is kept as it is (two spaces stay
  two spaces), and the value for a player without any name is \<open>null\<close>, not a string.
\<close>

theorem getPlayerName_keeps_whitespace:
  "getPlayerName (Some ex_payload) = Str ''Ana  Maria Lopez'' \<and>
   spec_collapse_whitespace ''Ana  Maria Lopez'' = ''Ana Maria Lopez'' \<and>
   getPlayerName (Some ex_payload) \<noteq> Str (spec_collapse_whitespace ''Ana  Maria Lopez'') \<and>
   getPlayerName (Some ex_nameless) = Null \<and>
   getPlayerName (Some ex_nameless) \<noteq> Str ''unknown''"
  by (simp add: getPlayerName_def js_or_def ex_payload_def ex_nameless_def)

subsection \<open>Claim C9: computed identifiers\<close>

lemma find_updateOne_Some:
  assumes "distinct (map fst upd)" "map_of upd ''_id'' = Some (V i)" "truthy i"
  shows "find_doc i (updateOne i upd c) \<noteq> None"
  by (simp add: find_updateOne_same[OF assms])

text \<open>
  Claim C9, as the code has it. Without a caller-supplied \<open>_id\<close>, teams, players and countries
  get the identifier \<open><entity>:sportmonks:<providerId>\<close>, and a squad gets
  \<open>squad:sportmonks:<teamId>:current\<close>, with the suffix \<open>:current\<close>. The provider segment is the
  literal \<open>sportmonks\<close> whatever the provider tag of the input is. The document is stored
  under that identifier.
\<close>

theorem computed_identifiers:
  "(\<not> truthy (td_id t) \<longrightarrow>
      doc_id (fst (upsertTeam now t s)) =
        Some (V (Str (spec_canonical_id ''team'' ''sportmonks'' (to_string (td_providerId t)))))) \<and>
   (\<not> truthy (pd_id p) \<longrightarrow>
      doc_id (fst (upsertPlayer now p s)) =
        Some (V (Str (spec_canonical_id ''player'' ''sportmonks'' (to_string (pd_providerId p)))))) \<and>
   (\<not> truthy (sd_id q) \<longrightarrow>
      doc_id (fst (upsertSquad now q s)) =
        Some (V (Str (spec_canonical_id ''squad'' ''sportmonks'' (to_string (sd_teamId q))
                       @ '':current'')))) \<and>
   doc_id (fst (upsertCountry now c s)) =
     Some (V (Str (spec_canonical_id ''country'' ''sportmonks'' (to_string (cd_providerId c))))) \<and>
   find_doc (team_id t) (teams_col (snd (upsertTeam now t s))) \<noteq> None \<and>
   find_doc (player_id p) (players_col (snd (upsertPlayer now p s))) \<noteq> None \<and>
   find_doc (squad_id q) (squads_col (snd (upsertSquad now q s))) \<noteq> None \<and>
   find_doc (country_id c) (countries_col (snd (upsertCountry now c s))) \<noteq> None"
proof -
  have stored:
    "find_doc (team_id t) (teams_col (snd (upsertTeam now t s))) \<noteq> None"
    "find_doc (player_id p) (players_col (snd (upsertPlayer now p s))) \<noteq> None"
    "find_doc (squad_id q) (squads_col (snd (upsertSquad now q s))) \<noteq> None"
    "find_doc (country_id c) (countries_col (snd (upsertCountry now c s))) \<noteq> None"
    by (simp_all add: upsertTeam_def upsertPlayer_def upsertSquad_def upsertCountry_def
        find_updateOne_Some team_doc_keys player_doc_keys squad_doc_keys country_doc_keys
        truthy_team_id truthy_player_id truthy_squad_id truthy_country_id)
  have ids:
    "\<not> truthy (td_id t) \<longrightarrow>
      doc_id (fst (upsertTeam now t s)) =
        Some (V (Str (spec_canonical_id ''team'' ''sportmonks'' (to_string (td_providerId t)))))"
    "\<not> truthy (pd_id p) \<longrightarrow>
      doc_id (fst (upsertPlayer now p s)) =
        Some (V (Str (spec_canonical_id ''player'' ''sportmonks'' (to_string (pd_providerId p)))))"
    "\<not> truthy (sd_id q) \<longrightarrow>
      doc_id (fst (upsertSquad now q s)) =
        Some (V (Str (spec_canonical_id ''squad'' ''sportmonks'' (to_string (sd_teamId q))
                       @ '':current'')))"
    "doc_id (fst (upsertCountry now c s)) =
     Some (V (Str (spec_canonical_id ''country'' ''sportmonks'' (to_string (cd_providerId c)))))"
    by (simp_all add: doc_id_def upsertTeam_def upsertPlayer_def upsertSquad_def upsertCountry_def
        team_doc_keys player_doc_keys squad_doc_keys country_doc_keys
        team_id_def player_id_def squad_id_def country_id_def js_or_def spec_canonical_id_def)
  show ?thesis using stored ids by blast
qed

theorem computed_identifiers_witness:
  "\<not> truthy (td_id ex_team1) \<and> \<not> truthy (pd_id ex_player1) \<and> \<not> truthy (sd_id ex_squad1) \<and>
   doc_id (fst (upsertTeam 1000 ex_team1 empty_db)) = Some (V (Str ''team:sportmonks:18710'')) \<and>
   doc_id (fst (upsertPlayer 1000 ex_player1 empty_db)) = Some (V (Str ''player:sportmonks:96611'')) \<and>
   doc_id (fst (upsertSquad 1000 ex_squad1 empty_db)) = Some (V (Str ''squad:sportmonks:18710:current'')) \<and>
   doc_id (fst (upsertCountry 1000 ex_country empty_db)) = Some (V (Str ''country:sportmonks:32''))"
  using computed_identifiers[of ex_team1 1000 empty_db ex_player1 ex_squad1 ex_country]
  by (simp add: ex_team1_def ex_player1_def ex_squad1_def ex_country_def spec_canonical_id_def
      show_int_eval)

text \<open>
  The claim as stated fails for squads: the computed identifier of the squad of team 18710
  is \<open>squad:sportmonks:18710:current\<close>, which is not \<open>squad:sportmonks:18710\<close>.
\<close>

theorem squad_identifier_has_suffix:
  "\<not> truthy (sd_id ex_squad1) \<and>
   doc_id (fst (upsertSquad 1000 ex_squad1 empty_db)) \<noteq>
     Some (V (Str (spec_canonical_id ''squad'' ''sportmonks'' (to_string (sd_teamId ex_squad1))))) \<and>
   squad_id ex_squad1 = Str ''squad:sportmonks:18710:current''"
  by (simp add: doc_id_def upsertSquad_def squad_doc_def squad_id_def js_or_def ex_squad1_def
      spec_canonical_id_def show_int_eval)

subsection \<open>Claim C2: the current club\<close>





lemma spec_no_end_current: "spec_no_end_date m \<Longrightarrow> spec_current now m"
  by (simp add: spec_current_def)
























lemmas ex_club_defs = ex_now_def ex_national_def ex_old_club_def ex_older_club_def
  ex_current_club_def ex_loan_club_def ex_long_contract_def ex_no_start_def ex_bad_start_def

lemmas club_eval = findCurrentClub_def js_sort_def club_cmp_def is_club_def active_def
  pivot_end_def pivot_start_def start_date_def



lemma ex_bad_eval:
  "club_cmp ex_now ex_bad_start ex_old_club = NaN"
  "club_cmp ex_now ex_old_club ex_bad_start = NaN"
  "findCurrentClub ex_now (Some [ex_bad_start, ex_old_club]) = Some ex_bad_start"
  "findCurrentClub ex_now (Some [ex_old_club, ex_bad_start]) = Some ex_old_club"
  by (simp_all add: club_eval ex_club_defs)






subsection \<open>Claim C3: retries and backoff\<close>

lemma apiRequest_from_Return:
  "attempt \<le> M \<Longrightarrow> try_block attempt (fetch attempt) = Return d \<Longrightarrow>
   apiRequest_from M fetch attempt le st = (Inr d, begin_attempt attempt st)"
  by (subst apiRequest_from.simps) simp

lemma apiRequest_from_Throw:
  "attempt \<le> M \<Longrightarrow> try_block attempt (fetch attempt) = Throw e \<Longrightarrow>
   apiRequest_from M fetch attempt le st = (Inl e, begin_attempt attempt st)"
  by (subst apiRequest_from.simps) simp

lemma apiRequest_from_Retry:
  "attempt \<le> M \<Longrightarrow> try_block attempt (fetch attempt) = Retry wait caught \<Longrightarrow>
   apiRequest_from M fetch attempt le st =
   apiRequest_from M fetch (Suc attempt) (case caught of None \<Rightarrow> le | Some e \<Rightarrow> Some e)
     (sleep wait (begin_attempt attempt st))"
  by (subst apiRequest_from.simps) simp

lemma apiRequest_from_exhausted:
  "\<not> attempt \<le> M \<Longrightarrow>
   apiRequest_from M fetch attempt le st =
   (Inl (Error (''Max retries exceeded. Last error: '' @
          (case le of None \<Rightarrow> ''undefined'' | Some e \<Rightarrow> err_message e))), st)"
  by (subst apiRequest_from.simps) simp

lemmas apiRequest_eval = apiRequest_from_Return apiRequest_from_Throw apiRequest_from_Retry
  apiRequest_from_exhausted

lemma backoffs_append: "backoffs (xs @ ys) = backoffs xs @ backoffs ys"
  by (induction xs rule: backoffs.induct) auto

lemma calls_sleep: "totalApiCalls (sleep w st) = totalApiCalls st"
  by (simp add: sleep_def split: option.splits)

lemma calls_begin: "totalApiCalls (begin_attempt k st) = Suc (totalApiCalls st)"
  by (simp add: begin_attempt_def)

lemma apiRequest_from_calls:
  "totalApiCalls (snd (apiRequest_from M fetch attempt le st)) \<le> totalApiCalls st + (Suc M - attempt)"
proof (induction M fetch attempt le st rule: apiRequest_from.induct)
  case (1 M fetch attempt le st)
  show ?case
  proof (cases "attempt \<le> M")
    case False
    then show ?thesis by (simp add: apiRequest_from_exhausted)
  next
    case True
    show ?thesis
    proof (cases "try_block attempt (fetch attempt)")
      case (Return d)
      then show ?thesis using True by (simp add: apiRequest_from_Return calls_begin)
    next
      case (Throw e)
      then show ?thesis using True by (simp add: apiRequest_from_Throw calls_begin)
    next
      case (Retry wait caught)
      have "totalApiCalls (snd (apiRequest_from M fetch (attempt + 1)
               (case caught of None \<Rightarrow> le | Some e \<Rightarrow> Some e)
               (sleep wait (begin_attempt attempt st))))
            \<le> totalApiCalls (sleep wait (begin_attempt attempt st)) + (Suc M - (attempt + 1))"
        using "1.IH"[OF True Retry] .
      then show ?thesis using True Retry
        by (simp add: apiRequest_from_Retry calls_sleep calls_begin)
    qed
  qed
qed


lemma try_block_wait:
  "try_block attempt r = Retry (Some ms) caught \<Longrightarrow> ms = backoffMs attempt"
  by (auto simp: try_block_def catch_block_def split: fetch_result.splits if_splits sum.splits)

lemma backoffMs_mono: "a \<le> b \<Longrightarrow> backoffMs a \<le> backoffMs b"
  by (simp add: backoffMs_def)

lemma events_sleep_begin:
  "events (sleep wait (begin_attempt attempt st)) =
     events st @ [RateLimitWait, Fetch attempt] @ (case wait of None \<Rightarrow> [] | Some ms \<Rightarrow> [Backoff ms])"
  by (simp add: sleep_def begin_attempt_def split: option.splits)

lemma apiRequest_from_events:
  "\<exists>es. events (snd (apiRequest_from M fetch attempt le st)) = events st @ es \<and>
        sorted (backoffs es) \<and> (\<forall>b\<in>set (backoffs es). backoffMs attempt \<le> b)"
proof (induction M fetch attempt le st rule: apiRequest_from.induct)
  case (1 M fetch attempt le st)
  show ?case
  proof (cases "attempt \<le> M")
    case False
    then show ?thesis by (simp add: apiRequest_from_exhausted)
  next
    case True
    show ?thesis
    proof (cases "try_block attempt (fetch attempt)")
      case (Return d)
      then show ?thesis using True by (simp add: apiRequest_from_Return begin_attempt_def)
    next
      case (Throw e)
      then show ?thesis using True by (simp add: apiRequest_from_Throw begin_attempt_def)
    next
      case (Retry wait caught)
      let ?st1 = "sleep wait (begin_attempt attempt st)"
      let ?le1 = "case caught of None \<Rightarrow> le | Some e \<Rightarrow> Some e"
      have "\<exists>es. events (snd (apiRequest_from M fetch (Suc attempt) ?le1 ?st1)) = events ?st1 @ es \<and>
          sorted (backoffs es) \<and> (\<forall>b\<in>set (backoffs es). backoffMs (Suc attempt) \<le> b)"
        using "1.IH"[OF True Retry] by simp
      then obtain es where es: "events (snd (apiRequest_from M fetch (Suc attempt) ?le1 ?st1)) = events ?st1 @ es"
        and srt: "sorted (backoffs es)" and lb: "\<forall>b\<in>set (backoffs es). backoffMs (Suc attempt) \<le> b"
        by blast
      have lb': "\<forall>b\<in>set (backoffs es). backoffMs attempt \<le> b"
        using lb backoffMs_mono[of attempt "Suc attempt"] by fastforce
      let ?w = "case wait of None \<Rightarrow> [] | Some ms \<Rightarrow> [Backoff ms]"
      let ?es = "[RateLimitWait, Fetch attempt] @ ?w @ es"
      have run: "apiRequest_from M fetch attempt le st = apiRequest_from M fetch (Suc attempt) ?le1 ?st1"
        using True Retry by (simp add: apiRequest_from_Retry)
      have e1: "events (snd (apiRequest_from M fetch attempt le st)) = events st @ ?es"
        by (simp add: run es events_sleep_begin)
      have bw: "backoffs ?es = backoffs ?w @ backoffs es" by (simp add: backoffs_append)
      have e2: "sorted (backoffs ?es) \<and> (\<forall>b\<in>set (backoffs ?es). backoffMs attempt \<le> b)"
      proof (cases wait)
        case None
        then show ?thesis using srt lb' by (simp add: bw)
      next
        case (Some ms)
        then have "ms = backoffMs attempt" using Retry try_block_wait by blast
        then show ?thesis using srt lb' Some by (simp add: bw)
      qed
      show ?thesis using e1 e2 by blast
    qed
  qed
qed

lemma apiRequest_backoffs_sorted:
  "sorted (backoffs (new_events st (snd (apiRequest M fetch st))))"
proof -
  obtain es where "events (snd (apiRequest_from M fetch 0 None st)) = events st @ es"
    and "sorted (backoffs es)"
    using apiRequest_from_events[of M fetch 0 None st] by blast
  then show ?thesis by (simp add: new_events_def apiRequest_def)
qed

lemma apiRequest_calls: "totalApiCalls (snd (apiRequest M fetch st)) \<le> totalApiCalls st + M + 1"
  using apiRequest_from_calls[of M fetch 0 None st] by (simp add: apiRequest_def)

lemma try_block_status_retry:
  "status = 429 \<or> 500 \<le> status \<Longrightarrow>
   try_block attempt (Response status body json) = Retry (Some (2 ^ attempt * 1000)) None"
  by (auto simp: try_block_def backoffMs_def)

lemma try_block_network:
  "err_name e \<noteq> ''AbortError'' \<Longrightarrow>
   err_code e = Some ''ECONNRESET'' \<or> err_code e = Some ''ENOTFOUND'' \<or> str_includes (err_message e) ''fetch'' \<Longrightarrow>
   try_block attempt (Rejected e) = Retry (Some (2 ^ attempt * 1000)) (Some e)"
  by (auto simp: try_block_def catch_block_def backoffMs_def)

lemma try_block_timeout:
  "err_name e = ''AbortError'' \<Longrightarrow> try_block attempt (Rejected e) = Retry None (Some e)"
  by (simp add: try_block_def catch_block_def)

lemma try_block_ok:
  "status < 400 \<Longrightarrow> try_block attempt (Response status body (Inr d)) = Return d"
  by (simp add: try_block_def)


lemmas request_eval = apiRequest_def apiRequest_eval try_block_def catch_block_def backoffMs_def
  begin_attempt_def sleep_def Error_def show_nat_small show_nat_big digit_def

lemma run_429_500_200:
  assumes "2 \<le> M" "fetch 0 = Response 429 t0 j0" "fetch 1 = Response 500 t1 j1"
    "fetch 2 = Response 200 t2 (Inr d)"
  shows "apiRequest M fetch st =
     (Inr d, st\<lparr> totalApiCalls := totalApiCalls st + 3,
                 events := events st @ [RateLimitWait, Fetch 0, Backoff 1000,
                                        RateLimitWait, Fetch 1, Backoff 2000,
                                        RateLimitWait, Fetch 2] \<rparr>)"
proof -
  have s0: "try_block 0 (fetch 0) = Retry (Some 1000) None"
    using try_block_status_retry[of 429 0 t0 j0] assms(2) by simp
  have s1: "try_block (Suc 0) (fetch (Suc 0)) = Retry (Some 2000) None"
    using try_block_status_retry[of 500 "Suc 0" t1 j1] assms(3) by simp
  have s2: "try_block (Suc (Suc 0)) (fetch (Suc (Suc 0))) = Return d"
    using try_block_ok[of 200 "Suc (Suc 0)" t2 d] assms(4) by (simp add: numeral_2_eq_2)
  have le: "0 \<le> M" "Suc 0 \<le> M" "Suc (Suc 0) \<le> M" using assms(1) by simp_all
  show ?thesis
    unfolding apiRequest_def
    by (simp add: apiRequest_from_Retry[where fetch=fetch and attempt=0, OF le(1) s0]
        apiRequest_from_Retry[where fetch=fetch and attempt="Suc 0", OF le(2) s1]
        apiRequest_from_Return[where fetch=fetch and attempt="Suc (Suc 0)", OF le(3) s2]
        begin_attempt_def sleep_def)
qed

text \<open>
  Claim C3, as the code has it. At an attempt within the budget, a 429, a status of 500 or
  more, and a network failure (code \<open>ECONNRESET\<close> or \<open>ENOTFOUND\<close>, or a message that contains
  \<open>fetch\<close>) make \<open>apiRequest\<close> wait \<open>2 ^ attempt\<close> seconds and go to the next attempt; a timeout
  (\<open>AbortError\<close>) makes it go to the next attempt with no backoff wait. A request makes at
  most \<open>MAX_RETRIES + 1\<close> attempts, and its backoff waits never decrease. The responses 429,
  500, 200 give three attempts (two retries), waits of 1000 and 2000 milliseconds, and the
  data of the third response.
\<close>

theorem apiRequest_retry_policy:
  assumes "attempt \<le> MAX_RETRIES"
  shows
   "((status = 429 \<or> 500 \<le> status) \<and> fetch attempt = Response status body json \<longrightarrow>
        apiRequest_from MAX_RETRIES fetch attempt lastError st =
        apiRequest_from MAX_RETRIES fetch (Suc attempt) lastError
          (sleep (Some (2 ^ attempt * 1000)) (begin_attempt attempt st))) \<and>
    (fetch attempt = Rejected e \<and> err_name e \<noteq> ''AbortError'' \<and>
       (err_code e = Some ''ECONNRESET'' \<or> err_code e = Some ''ENOTFOUND'' \<or>
        str_includes (err_message e) ''fetch'') \<longrightarrow>
        apiRequest_from MAX_RETRIES fetch attempt lastError st =
        apiRequest_from MAX_RETRIES fetch (Suc attempt) (Some e)
          (sleep (Some (2 ^ attempt * 1000)) (begin_attempt attempt st))) \<and>
    (fetch attempt = Rejected e \<and> err_name e = ''AbortError'' \<longrightarrow>
        apiRequest_from MAX_RETRIES fetch attempt lastError st =
        apiRequest_from MAX_RETRIES fetch (Suc attempt) (Some e) (begin_attempt attempt st)) \<and>
    totalApiCalls (snd (apiRequest MAX_RETRIES fetch st)) \<le> totalApiCalls st + MAX_RETRIES + 1 \<and>
    sorted (backoffs (new_events st (snd (apiRequest MAX_RETRIES fetch st)))) \<and>
    (2 \<le> MAX_RETRIES \<and> fetch 0 = Response 429 t0 j0 \<and> fetch 1 = Response 500 t1 j1 \<and>
     fetch 2 = Response 200 t2 (Inr d) \<longrightarrow>
        apiRequest MAX_RETRIES fetch st =
          (Inr d, st\<lparr> totalApiCalls := totalApiCalls st + 3,
                      events := events st @ [RateLimitWait, Fetch 0, Backoff 1000,
                                             RateLimitWait, Fetch 1, Backoff 2000,
                                             RateLimitWait, Fetch 2] \<rparr>))"
proof -
  have a: "(status = 429 \<or> 500 \<le> status) \<and> fetch attempt = Response status body json \<longrightarrow>
        apiRequest_from MAX_RETRIES fetch attempt lastError st =
        apiRequest_from MAX_RETRIES fetch (Suc attempt) lastError
          (sleep (Some (2 ^ attempt * 1000)) (begin_attempt attempt st))"
    using apiRequest_from_Retry[where fetch=fetch and attempt=attempt and M=MAX_RETRIES
        and wait="Some (2 ^ attempt * 1000)" and caught=None and le=lastError and st=st] assms
      try_block_status_retry[of status attempt body json] by auto
  have b: "fetch attempt = Rejected e \<and> err_name e \<noteq> ''AbortError'' \<and>
       (err_code e = Some ''ECONNRESET'' \<or> err_code e = Some ''ENOTFOUND'' \<or>
        str_includes (err_message e) ''fetch'') \<longrightarrow>
        apiRequest_from MAX_RETRIES fetch attempt lastError st =
        apiRequest_from MAX_RETRIES fetch (Suc attempt) (Some e)
          (sleep (Some (2 ^ attempt * 1000)) (begin_attempt attempt st))"
    using apiRequest_from_Retry[where fetch=fetch and attempt=attempt and M=MAX_RETRIES
        and wait="Some (2 ^ attempt * 1000)" and caught="Some e" and le=lastError and st=st] assms
      try_block_network[of e attempt] by auto
  have c: "fetch attempt = Rejected e \<and> err_name e = ''AbortError'' \<longrightarrow>
        apiRequest_from MAX_RETRIES fetch attempt lastError st =
        apiRequest_from MAX_RETRIES fetch (Suc attempt) (Some e) (begin_attempt attempt st)"
    using apiRequest_from_Retry[where fetch=fetch and attempt=attempt and M=MAX_RETRIES
        and wait=None and caught="Some e" and le=lastError and st=st] assms
      try_block_timeout[of e attempt] by (auto simp: sleep_def)
  have d: "2 \<le> MAX_RETRIES \<and> fetch 0 = Response 429 t0 j0 \<and> fetch 1 = Response 500 t1 j1 \<and>
     fetch 2 = Response 200 t2 (Inr d) \<longrightarrow>
        apiRequest MAX_RETRIES fetch st =
          (Inr d, st\<lparr> totalApiCalls := totalApiCalls st + 3,
                      events := events st @ [RateLimitWait, Fetch 0, Backoff 1000,
                                             RateLimitWait, Fetch 1, Backoff 2000,
                                             RateLimitWait, Fetch 2] \<rparr>)"
    using run_429_500_200[of MAX_RETRIES fetch t0 j0 t1 j1 t2 d st] by blast
  show ?thesis
    using a b c d apiRequest_calls[of MAX_RETRIES fetch st]
      apiRequest_backoffs_sorted[of st MAX_RETRIES fetch]
    by (intro conjI)
qed

theorem apiRequest_retry_policy_witness:
  "(0::nat) \<le> 4 \<and> ex_429_500_200 0 = Response 429 ''Too Many Requests'' (Inl (Error ''Unexpected token'')) \<and>
   ex_429_500_200 1 = Response 500 ''Internal Server Error'' (Inl (Error ''Unexpected token'')) \<and>
   ex_429_500_200 2 = Response 200 ''{}'' (Inr ''payload'') \<and>
   apiRequest 4 ex_429_500_200 ex_idle =
     (Inr ''payload'',
      \<lparr> totalApiCalls = 3,
        events = [RateLimitWait, Fetch 0, Backoff 1000, RateLimitWait, Fetch 1, Backoff 2000,
                  RateLimitWait, Fetch 2] \<rparr>) \<and>
   backoffs (events (snd (apiRequest 4 ex_429_500_200 ex_idle))) = [1000, 2000] \<and>
   ex_reset_then_200 0 = Rejected ex_reset \<and> err_name ex_reset \<noteq> ''AbortError'' \<and>
   err_code ex_reset = Some ''ECONNRESET'' \<and>
   apiRequest_from 4 ex_reset_then_200 0 None ex_idle =
     apiRequest_from 4 ex_reset_then_200 1 (Some ex_reset)
       \<lparr> totalApiCalls = 1, events = [RateLimitWait, Fetch 0, Backoff 1000] \<rparr> \<and>
   ex_timeout_then_200 0 = Rejected ex_abort \<and> err_name ex_abort = ''AbortError'' \<and>
   apiRequest_from 4 ex_timeout_then_200 0 None ex_idle =
     apiRequest_from 4 ex_timeout_then_200 1 (Some ex_abort)
       \<lparr> totalApiCalls = 1, events = [RateLimitWait, Fetch 0] \<rparr>"
proof -
  have h: "(0::nat) \<le> 4" by simp
  have f: "ex_429_500_200 0 = Response 429 ''Too Many Requests'' (Inl (Error ''Unexpected token''))"
    "ex_429_500_200 1 = Response 500 ''Internal Server Error'' (Inl (Error ''Unexpected token''))"
    "ex_429_500_200 2 = Response 200 ''{}'' (Inr ''payload'')"
    by (simp_all add: ex_429_500_200_def)
  have g: "ex_reset_then_200 0 = Rejected ex_reset" "err_name ex_reset \<noteq> ''AbortError''"
    "err_code ex_reset = Some ''ECONNRESET''"
    "ex_timeout_then_200 0 = Rejected ex_abort" "err_name ex_abort = ''AbortError''"
    by (simp_all add: ex_reset_then_200_def ex_timeout_then_200_def ex_reset_def ex_abort_def)
  have r1: "apiRequest 4 ex_429_500_200 ex_idle =
     (Inr ''payload'',
      \<lparr> totalApiCalls = 3,
        events = [RateLimitWait, Fetch 0, Backoff 1000, RateLimitWait, Fetch 1, Backoff 2000,
                  RateLimitWait, Fetch 2] \<rparr>)"
    using apiRequest_retry_policy[OF h, of _ ex_429_500_200 _ _ _ ex_idle _
        "''Too Many Requests''" "Inl (Error ''Unexpected token'')"
        "''Internal Server Error''" "Inl (Error ''Unexpected token'')" "''{}''" "''payload''"] f
    by (simp add: ex_idle_def)
  have r2: "apiRequest_from 4 ex_reset_then_200 0 None ex_idle =
     apiRequest_from 4 ex_reset_then_200 1 (Some ex_reset)
       \<lparr> totalApiCalls = 1, events = [RateLimitWait, Fetch 0, Backoff 1000] \<rparr>"
    using apiRequest_retry_policy[OF h, of _ ex_reset_then_200 _ _ None ex_idle ex_reset] g
    by (simp add: ex_idle_def sleep_def begin_attempt_def)
  have r3: "apiRequest_from 4 ex_timeout_then_200 0 None ex_idle =
     apiRequest_from 4 ex_timeout_then_200 1 (Some ex_abort)
       \<lparr> totalApiCalls = 1, events = [RateLimitWait, Fetch 0] \<rparr>"
    using apiRequest_retry_policy[OF h, of _ ex_timeout_then_200 _ _ None ex_idle ex_abort] g
    by (simp add: ex_idle_def sleep_def begin_attempt_def)
  have r4: "backoffs (events (snd (apiRequest 4 ex_429_500_200 ex_idle))) = [1000, 2000]"
    by (simp add: r1)
  show ?thesis using h f g r1 r2 r3 r4 by (intro conjI)
qed

text \<open>
  The claim as stated fails for timeouts: after a timed-out first attempt the second
  attempt follows with no backoff wait between them.
\<close>

theorem apiRequest_timeout_no_backoff:
  "ex_timeout_then_200 0 = Rejected ex_abort \<and> err_name ex_abort = ''AbortError'' \<and>
   apiRequest 4 ex_timeout_then_200 ex_idle =
     (Inr ''payload'',
      \<lparr> totalApiCalls = 2, events = [RateLimitWait, Fetch 0, RateLimitWait, Fetch 1] \<rparr>) \<and>
   backoffs (events (snd (apiRequest 4 ex_timeout_then_200 ex_idle))) = []"
  by (simp add: request_eval ex_timeout_then_200_def ex_abort_def ex_idle_def)

subsection \<open>Claim C4: client errors\<close>

lemma apiRequest_404_plain:
  "apiRequest 4 ex_404_plain ex_idle =
     (Inl (Error ''API Error 404: Not Found''),
      \<lparr> totalApiCalls = 1, events = [RateLimitWait, Fetch 0] \<rparr>)"
  by (simp add: request_eval ex_404_plain_def ex_idle_def)

lemma apiRequest_4xx_fails_at_once:
  assumes "attempt \<le> M" "fetch attempt = Response status body json"
    "400 \<le> status" "status < 500" "status \<noteq> 429"
    "\<not> str_includes (''API Error '' @ show_nat status @ '': '' @ body) ''fetch''"
  shows "apiRequest_from M fetch attempt le st =
     (Inl (Error (''API Error '' @ show_nat status @ '': '' @ body)), begin_attempt attempt st)"
proof -
  have "try_block attempt (fetch attempt) =
      Throw (Error (''API Error '' @ show_nat status @ '': '' @ body))"
    using assms(2-6) by (simp add: try_block_def catch_block_def Error_def)
  then show ?thesis using assms(1) by (simp add: apiRequest_from_Throw)
qed

text \<open>
  Claim C4 at a 404 whose body contains the word \<open>fetch\<close>. The error thrown for the 4xx
  status is caught by the \<open>catch\<close> block of the same loop, whose test for network errors,
  \<open>error.message.includes('fetch')\<close>, matches the body text; the request is retried with
  backoff until the budget is used up, where the claim demands an immediate failure. For a
  body without that word the failure is immediate (\<open>apiRequest_4xx_fails_at_once\<close>).
\<close>

theorem apiRequest_404_body_fetch_retried:
  "apiRequest 4 ex_404_fetch ex_idle =
     (Inl (Error ''Max retries exceeded. Last error: API Error 404: Could not fetch player 5''),
      \<lparr> totalApiCalls = 5,
        events = [RateLimitWait, Fetch 0, Backoff 1000, RateLimitWait, Fetch 1, Backoff 2000,
                  RateLimitWait, Fetch 2, Backoff 4000, RateLimitWait, Fetch 3, Backoff 8000,
                  RateLimitWait, Fetch 4, Backoff 16000] \<rparr>)"
  by (simp add: request_eval ex_404_fetch_def ex_idle_def)

subsection \<open>The player loop\<close>

lemma playersLoop_outcomes:
  "playersLoop now a es (ids, st, w) =
     (ids @ upserted_ids (outcomes now a es w),
      st\<lparr> playersUpserted := playersUpserted st + length (upserted_ids (outcomes now a es w)),
          errors := errors st @ player_errors (outcomes now a es w) \<rparr>,
      world_after now a es w)"
proof (induction es arbitrary: ids st w)
  case Nil
  then show ?case by simp
next
  case (Cons e es)
  obtain oc w' where p: "processEntry now a e w = (oc, w')" by (cases "processEntry now a e w")
  show ?case
    by (cases oc) (simp_all add: p Cons.IH)
qed


lemma length_outcomes: "length (outcomes now a es w) = length es"
  by (induction es arbitrary: w) auto

lemma upserted_ids_all:
  "list_all is_upserted os \<Longrightarrow> map Upserted (upserted_ids os) = os"
  by (induction os rule: upserted_ids.induct) auto

lemma squad_key: "squad_id \<lparr> sd_id = Undefined, sd_provider = Undefined, sd_teamId = teamId,
     sd_teamName = Undefined, sd_playerIds = ids \<rparr> = Str (''squad:sportmonks:'' @ to_string teamId @ '':current'')"
  by (simp add: squad_id_def js_or_def)

lemma bson_jv_defined: "v \<noteq> Undefined \<Longrightarrow> bson_jv v = v"
  by (cases v) auto

lemma bson_jv_idem: "list_all (\<lambda>v. v \<noteq> Undefined) vs \<Longrightarrow> map bson_jv vs = vs"
  by (induction vs) (auto simp: bson_jv_defined)

lemma persisted_after_upsertSquad:
  "persisted_playerIds teamId (snd (upsertSquad now \<lparr> sd_id = Undefined, sd_provider = Undefined,
       sd_teamId = teamId, sd_teamName = Undefined, sd_playerIds = Some ids \<rparr> s)) =
     Some (map bson_jv ids)"
proof -
  let ?q = "\<lparr> sd_id = Undefined, sd_provider = Undefined, sd_teamId = teamId,
       sd_teamName = Undefined, sd_playerIds = Some ids \<rparr>"
  have k: "squad_id ?q = Str (''squad:sportmonks:'' @ to_string teamId @ '':current'')"
    by (rule squad_key)
  have f: "find_doc (squad_id ?q) (squads_col (snd (upsertSquad now ?q s))) =
      Some (apply_set (squad_doc now ?q) (base_doc (squad_id ?q) (squads_col s)))"
    by (simp add: upsertSquad_def find_updateOne_same[OF squad_doc_keys truthy_squad_id])
  have "map_of (squad_doc now ?q) ''playerIds'' = Some (Arr ids)"
    by (simp add: squad_doc_def)
  then have m: "map_of (apply_set (squad_doc now ?q) d) ''playerIds'' = Some (Arr (map bson_jv ids))" for d
    using map_of_apply_set[OF squad_doc_keys(1), of now ?q d "''playerIds''"] by simp
  show ?thesis
    unfolding persisted_playerIds_def using f m by (simp add: k)
qed

lemma player_id_playerDataOf: "player_id (playerDataOf p n c k) = playerDocId p"
  by (simp add: player_id_def playerDataOf_def playerDocId_def js_or_def)

lemma getCountry_cache:
  "getCountry a i c = (r, c') \<Longrightarrow>
     cache_players c' = cache_players c \<and> cache_teams c' = cache_teams c"
  by (auto simp: getCountry_def split: if_splits option.splits sum.splits)

lemma nationalityOf_cache:
  "nationalityOf a p c = (r, c') \<Longrightarrow>
     cache_players c' = cache_players c \<and> cache_teams c' = cache_teams c"
  by (auto simp: nationalityOf_def split: if_splits option.splits sum.splits prod.splits
      dest: getCountry_cache)

lemma currentClubOf_cache:
  "currentClubOf now a p c = (r, c') \<Longrightarrow>
     cache_players c' = cache_players c \<and> cache_teams c' = cache_teams c"
  by (auto simp: currentClubOf_def Let_def split: if_splits option.splits sum.splits prod.splits
      dest: getCountry_cache)

lemma getPlayer_cache:
  assumes "getPlayer a i c = (r, c')"
  shows "cache_teams c' = cache_teams c"
    and "cache_players c q = None \<Longrightarrow>
         players_endpoint a (''/players/'' @ to_string q) = Inl err \<Longrightarrow> cache_players c' q = None"
  using assms by (auto simp: getPlayer_def split: if_splits option.splits sum.splits)

lemma playerOf_cache:
  assumes "playerOf a e c = (r, c')"
  shows "cache_teams c' = cache_teams c"
    and "cache_players c q = None \<Longrightarrow>
         players_endpoint a (''/players/'' @ to_string q) = Inl err \<Longrightarrow> cache_players c' q = None"
proof -
  have "getPlayer a (se_player_id e) c = (r, c') \<or> c' = c"
    using assms by (auto simp: playerOf_def split: if_splits option.splits)
  then show "cache_teams c' = cache_teams c"
    and "cache_players c q = None \<Longrightarrow>
         players_endpoint a (''/players/'' @ to_string q) = Inl err \<Longrightarrow> cache_players c' q = None"
    using getPlayer_cache[of a "se_player_id e" c r c'] by auto
qed

lemma processEntry_cases:
  obtains
    (no_id) "\<not> truthy (se_player_id e)" "processEntry now a e w = (NoPlayerId, w)"
  | (fetch_failed) err c1 where "truthy (se_player_id e)"
      "playerOf a e (cache w) = (Inl err, c1)"
      "processEntry now a e w = (Failed (se_player_id e) (err_message err), w\<lparr>cache := c1\<rparr>)"
  | (no_player) c1 where "truthy (se_player_id e)"
      "playerOf a e (cache w) = (Inr None, c1)"
      "processEntry now a e w = (NoPlayer, w\<lparr>cache := c1\<rparr>)"
  | (nationality_failed) p c1 err c2 where "truthy (se_player_id e)"
      "playerOf a e (cache w) = (Inr (Some p), c1)"
      "nationalityOf a p c1 = (Inl err, c2)"
      "processEntry now a e w = (Failed (se_player_id e) (err_message err), w\<lparr>cache := c2\<rparr>)"
  | (club_failed) p c1 n c2 err c3 where "truthy (se_player_id e)"
      "playerOf a e (cache w) = (Inr (Some p), c1)"
      "nationalityOf a p c1 = (Inr n, c2)"
      "currentClubOf now a p c2 = (Inl err, c3)"
      "processEntry now a e w = (Failed (se_player_id e) (err_message err), w\<lparr>cache := c3\<rparr>)"
  | (upserted) p c1 n c2 cl cc c3 where "truthy (se_player_id e)"
      "playerOf a e (cache w) = (Inr (Some p), c1)"
      "nationalityOf a p c1 = (Inr n, c2)"
      "currentClubOf now a p c2 = (Inr (cl, cc), c3)"
      "processEntry now a e w =
         (Upserted (playerDocId p),
          w\<lparr> cache := c3, store := snd (upsertPlayer now (playerDataOf p n cl cc) (store w)) \<rparr>)"
proof (cases "truthy (se_player_id e)")
  case False
  then show ?thesis using no_id by (simp add: processEntry_def)
next
  case True
  obtain r1 c1 where p1: "playerOf a e (cache w) = (r1, c1)" by (cases "playerOf a e (cache w)")
  show ?thesis
  proof (cases r1)
    case (Inl err)
    then show ?thesis using fetch_failed[of err c1] True p1 by (simp add: processEntry_def)
  next
    case (Inr po)
    show ?thesis
    proof (cases po)
      case None
      then show ?thesis using no_player[of c1] True p1 Inr by (simp add: processEntry_def)
    next
      case (Some p)
      obtain r2 c2 where p2: "nationalityOf a p c1 = (r2, c2)" by (cases "nationalityOf a p c1")
      show ?thesis
      proof (cases r2)
        case (Inl err)
        then show ?thesis using nationality_failed[of p c1 err c2] True p1 Inr Some p2
          by (simp add: processEntry_def)
      next
        case n: (Inr n)
        obtain r3 c3 where p3: "currentClubOf now a p c2 = (r3, c3)"
          by (cases "currentClubOf now a p c2")
        show ?thesis
        proof (cases r3)
          case (Inl err)
          then show ?thesis using club_failed[of p c1 n c2 err c3] True p1 Inr Some p2 n p3
            by (simp add: processEntry_def)
        next
          case k: (Inr clk)
          obtain cl cc where clk: "clk = (cl, cc)" by (cases clk)
          show ?thesis using upserted[of p c1 n c2 cl cc c3] True p1 Inr Some p2 n p3 k clk
            by (simp add: processEntry_def)
        qed
      qed
    qed
  qed
qed

lemma find_updateOne_keeps:
  assumes "distinct (map fst upd)" "map_of upd ''_id'' = Some (V i)" "truthy i"
    "find_doc j c \<noteq> None"
  shows "find_doc j (updateOne i upd c) \<noteq> None"
proof (cases "j = i")
  case True
  then show ?thesis by (simp add: find_updateOne_same[OF assms(1-3)])
next
  case False
  then show ?thesis using assms(4) by (simp add: find_updateOne_other[OF assms(1-3)])
qed

lemma upsertPlayer_cols:
  "teams_col (snd (upsertPlayer now pd s)) = teams_col s"
  "squads_col (snd (upsertPlayer now pd s)) = squads_col s"
  "countries_col (snd (upsertPlayer now pd s)) = countries_col s"
  by (simp_all add: upsertPlayer_def)

lemma upsertPlayer_finds:
  "find_doc (player_id pd) (players_col (snd (upsertPlayer now pd s))) \<noteq> None"
  by (simp add: upsertPlayer_def find_updateOne_same[OF player_doc_keys truthy_player_id])

lemma upsertPlayer_keeps:
  "find_doc j (players_col s) \<noteq> None \<Longrightarrow>
   find_doc j (players_col (snd (upsertPlayer now pd s))) \<noteq> None"
  by (simp add: upsertPlayer_def find_updateOne_keeps[OF player_doc_keys truthy_player_id])

lemma processEntry_upserted:
  assumes "fst (processEntry now a e w) = Upserted d"
  shows "find_doc d (players_col (store (snd (processEntry now a e w)))) \<noteq> None"
    and "\<exists>s. d = Str (''player:sportmonks:'' @ s)"
proof -
  have "find_doc d (players_col (store (snd (processEntry now a e w)))) \<noteq> None \<and>
        (\<exists>s. d = Str (''player:sportmonks:'' @ s))"
  proof (cases rule: processEntry_cases[of e now a w])
    case (upserted p c1 n c2 cl cc c3)
    have d: "d = playerDocId p" using assms upserted(5) by simp
    have "find_doc (playerDocId p)
        (players_col (snd (upsertPlayer now (playerDataOf p n cl cc) (store w)))) \<noteq> None"
      using upsertPlayer_finds[of "playerDataOf p n cl cc" now "store w"]
      unfolding player_id_playerDataOf .
    then show ?thesis using d upserted(5) by (simp add: playerDocId_def)
  qed (use assms in simp_all)
  then show "find_doc d (players_col (store (snd (processEntry now a e w)))) \<noteq> None"
    and "\<exists>s. d = Str (''player:sportmonks:'' @ s)" by simp_all
qed

lemma processEntry_keeps_players:
  assumes "find_doc j (players_col (store w)) \<noteq> None"
  shows "find_doc j (players_col (store (snd (processEntry now a e w)))) \<noteq> None"
  using assms
  by (cases rule: processEntry_cases[of e now a w]; simp add: upsertPlayer_keeps)

lemma processEntry_other_cols:
  "teams_col (store (snd (processEntry now a e w))) = teams_col (store w)"
  "squads_col (store (snd (processEntry now a e w))) = squads_col (store w)"
  "countries_col (store (snd (processEntry now a e w))) = countries_col (store w)"
  by (cases rule: processEntry_cases[of e now a w]; simp add: upsertPlayer_cols)+

lemma processEntry_not_upserted:
  "\<not> is_upserted (fst (processEntry now a e w)) \<Longrightarrow>
   store (snd (processEntry now a e w)) = store w"
  by (cases rule: processEntry_cases[of e now a w]; simp)

lemma processEntry_cache_teams:
  "cache_teams (cache (snd (processEntry now a e w))) = cache_teams (cache w)"
proof (cases rule: processEntry_cases[of e now a w])
  case no_id
  then show ?thesis by simp
next
  case (fetch_failed err c1)
  then show ?thesis using playerOf_cache(1)[OF fetch_failed(2)] by simp
next
  case (no_player c1)
  then show ?thesis using playerOf_cache(1)[OF no_player(2)] by simp
next
  case (nationality_failed p c1 err c2)
  then show ?thesis
    using playerOf_cache(1)[OF nationality_failed(2)] nationalityOf_cache[OF nationality_failed(3)]
    by simp
next
  case (club_failed p c1 n c2 err c3)
  then show ?thesis
    using playerOf_cache(1)[OF club_failed(2)] nationalityOf_cache[OF club_failed(3)]
      currentClubOf_cache[OF club_failed(4)]
    by simp
next
  case (upserted p c1 n c2 cl cc c3)
  then show ?thesis
    using playerOf_cache(1)[OF upserted(2)] nationalityOf_cache[OF upserted(3)]
      currentClubOf_cache[OF upserted(4)]
    by simp
qed

lemma processEntry_cache_miss:
  assumes "cache_players (cache w) q = None"
    "players_endpoint a (''/players/'' @ to_string q) = Inl err"
  shows "cache_players (cache (snd (processEntry now a e w))) q = None"
proof (cases rule: processEntry_cases[of e now a w])
  case no_id
  then show ?thesis using assms by simp
next
  case (fetch_failed err c1)
  then show ?thesis using playerOf_cache(2)[OF fetch_failed(2) assms] by simp
next
  case (no_player c1)
  then show ?thesis using playerOf_cache(2)[OF no_player(2) assms] by simp
next
  case (nationality_failed p c1 err c2)
  then show ?thesis
    using playerOf_cache(2)[OF nationality_failed(2) assms]
      nationalityOf_cache[OF nationality_failed(3)]
    by simp
next
  case (club_failed p c1 n c2 err c3)
  then show ?thesis
    using playerOf_cache(2)[OF club_failed(2) assms] nationalityOf_cache[OF club_failed(3)]
      currentClubOf_cache[OF club_failed(4)]
    by simp
next
  case (upserted p c1 n c2 cl cc c3)
  then show ?thesis
    using playerOf_cache(2)[OF upserted(2) assms] nationalityOf_cache[OF upserted(3)]
      currentClubOf_cache[OF upserted(4)]
    by simp
qed

lemma world_after_cols:
  "teams_col (store (world_after now a es w)) = teams_col (store w)"
  "squads_col (store (world_after now a es w)) = squads_col (store w)"
  "countries_col (store (world_after now a es w)) = countries_col (store w)"
  "cache_teams (cache (world_after now a es w)) = cache_teams (cache w)"
  by (induction es arbitrary: w; simp add: processEntry_other_cols processEntry_cache_teams)+

lemma world_after_keeps_players:
  "find_doc j (players_col (store w)) \<noteq> None \<Longrightarrow>
   find_doc j (players_col (store (world_after now a es w))) \<noteq> None"
proof (induction es arbitrary: w)
  case Nil
  then show ?case by simp
next
  case (Cons e es)
  have "find_doc j (players_col (store (snd (processEntry now a e w)))) \<noteq> None"
    using Cons.prems by (rule processEntry_keeps_players)
  then have "find_doc j (players_col (store (world_after now a es (snd (processEntry now a e w))))) \<noteq> None"
    by (rule Cons.IH)
  then show ?case by simp
qed

lemma world_after_cache_miss:
  "cache_players (cache w) q = None \<Longrightarrow>
   players_endpoint a (''/players/'' @ to_string q) = Inl err \<Longrightarrow>
   cache_players (cache (world_after now a es w)) q = None"
  by (induction es arbitrary: w) (simp_all add: processEntry_cache_miss)

lemma outcomes_upserted_stored:
  "i < length es \<Longrightarrow> outcomes now a es w ! i = Upserted d \<Longrightarrow>
   find_doc d (players_col (store (world_after now a es w))) \<noteq> None"
proof (induction es arbitrary: i w)
  case Nil
  then show ?case by simp
next
  case (Cons e es)
  show ?case
  proof (cases i)
    case 0
    then have "fst (processEntry now a e w) = Upserted d" using Cons.prems by simp
    then have "find_doc d (players_col (store (snd (processEntry now a e w)))) \<noteq> None"
      by (rule processEntry_upserted(1))
    then have "find_doc d (players_col (store (world_after now a es (snd (processEntry now a e w))))) \<noteq> None"
      by (rule world_after_keeps_players)
    then show ?thesis by simp
  next
    case (Suc k)
    then show ?thesis using Cons.prems Cons.IH[of k "snd (processEntry now a e w)"] by simp
  qed
qed

lemma upserted_ids_defined:
  "list_all (\<lambda>v. v \<noteq> Undefined) (upserted_ids (outcomes now a es w))"
proof (induction es arbitrary: w)
  case Nil
  then show ?case by simp
next
  case (Cons e es)
  show ?case
  proof (cases "fst (processEntry now a e w)")
    case (Upserted d)
    then have "d \<noteq> Undefined" using processEntry_upserted(2)[of now a e w d] by auto
    then show ?thesis using Upserted Cons.IH by simp
  qed (simp_all add: Cons.IH)
qed

lemma processEntry_fetch_fails:
  assumes "truthy (se_player_id e)"
    "se_player e = None \<or> (\<exists>p. se_player e = Some p \<and> \<not> truthy (pl_nationality_id p))"
    "cache_players (cache w) (se_player_id e) = None"
    "players_endpoint a (''/players/'' @ to_string (se_player_id e)) = Inl err"
  shows "processEntry now a e w = (Failed (se_player_id e) (err_message err), w)"
proof -
  have g: "getPlayer a (se_player_id e) (cache w) = (Inl err, cache w)"
    using assms(3,4) by (simp add: getPlayer_def)
  have "playerOf a e (cache w) = (Inl err, cache w)"
    using assms(2) g by (auto simp: playerOf_def)
  then show ?thesis using assms(1) by (simp add: processEntry_def)
qed

lemma processEntry_no_payload:
  assumes "truthy (se_player_id e)"
    "se_player e = None \<or> (\<exists>p. se_player e = Some p \<and> \<not> truthy (pl_nationality_id p))"
    "cache_players (cache w) (se_player_id e) = None"
    "players_endpoint a (''/players/'' @ to_string (se_player_id e)) = Inr None"
  shows "processEntry now a e w = (NoPlayer, w)"
proof -
  have g: "getPlayer a (se_player_id e) (cache w) = (Inr None, cache w)"
    using assms(3,4) by (simp add: getPlayer_def)
  have "playerOf a e (cache w) = (Inr None, cache w)"
    using assms(2) g by (auto simp: playerOf_def)
  then show ?thesis using assms(1) by (simp add: processEntry_def)
qed

lemma outcomes_fetch_fails:
  assumes "k < length es" "truthy (se_player_id (es ! k))"
    "se_player (es ! k) = None \<or>
       (\<exists>p. se_player (es ! k) = Some p \<and> \<not> truthy (pl_nationality_id p))"
    "cache_players (cache w) (se_player_id (es ! k)) = None"
    "players_endpoint a (''/players/'' @ to_string (se_player_id (es ! k))) = Inl err"
  shows "outcomes now a es w ! k = Failed (se_player_id (es ! k)) (err_message err)"
  using assms
proof (induction es arbitrary: k w)
  case Nil
  then show ?case by simp
next
  case (Cons e es)
  show ?case
  proof (cases k)
    case 0
    then show ?thesis
      using Cons.prems processEntry_fetch_fails[of e w a err now] by simp
  next
    case (Suc j)
    have miss: "cache_players (cache (snd (processEntry now a e w))) (se_player_id (es ! j)) = None"
      using Cons.prems(4,5) Suc processEntry_cache_miss[of w "se_player_id (es ! j)" a err now e]
      by simp
    show ?thesis
      using Cons.IH[of j "snd (processEntry now a e w)"] Cons.prems Suc miss by simp
  qed
qed

lemma getTeam_cache:
  assumes "getTeam a i c = (r, c')"
  shows "cache_players c' = cache_players c"
    and "r = Inl err \<Longrightarrow> c' = c"
    and "cache_teams c q = None \<Longrightarrow>
         teams_endpoint a (''/teams/'' @ to_string q) = Inl err \<Longrightarrow> cache_teams c' q = None"
  using assms by (auto simp: getTeam_def split: if_splits option.splits sum.splits)

lemma loop_start_cache_players:
  "cache_players (cache (loop_start now a teamId w)) = cache_players (cache w)"
proof -
  obtain r c1 where g: "getTeam a teamId (cache w) = (r, c1)" by (cases "getTeam a teamId (cache w)")
  show ?thesis using getTeam_cache(1)[OF g] by (simp add: loop_start_def g)
qed

lemma upsertTeamOf_cols:
  "players_col (upsertTeamOf now t s) = players_col s"
  "squads_col (upsertTeamOf now t s) = squads_col s"
  by (simp_all add: upsertTeamOf_def upsertTeam_def upsertCountry_def Let_def split: option.splits)

lemma processTeamSquad_done:
  assumes "getTeamSquad a teamId = Inr es" "es \<noteq> []" "fst (getTeam a teamId (cache w)) = Inr team"
  shows "processTeamSquad now a teamId cfg w =
     (\<lparr> playersUpserted = length (upserted_ids (outcomes now a (capped cfg es) (loop_start now a teamId w))),
        errors = player_errors (outcomes now a (capped cfg es) (loop_start now a teamId w)) \<rparr>,
      (world_after now a (capped cfg es) (loop_start now a teamId w))
        \<lparr> store := snd (upsertSquad now
            \<lparr> sd_id = Undefined, sd_provider = Undefined, sd_teamId = teamId,
              sd_teamName = Undefined,
              sd_playerIds = Some (upserted_ids (outcomes now a (capped cfg es) (loop_start now a teamId w))) \<rparr>
            (store (world_after now a (capped cfg es) (loop_start now a teamId w)))) \<rparr>)"
proof -
  obtain c1 where g: "getTeam a teamId (cache w) = (Inr team, c1)"
    using assms(3) by (cases "getTeam a teamId (cache w)") simp
  have ls: "loop_start now a teamId w = w\<lparr> cache := c1, store := upsertTeamOf now team (store w) \<rparr>"
    by (simp add: loop_start_def g)
  show ?thesis
    unfolding processTeamSquad_def
    by (simp add: assms(1,2) g Let_def playersLoop_outcomes capped_def ls)
qed

lemma processTeamSquad_persisted:
  assumes "getTeamSquad a teamId = Inr es" "es \<noteq> []" "fst (getTeam a teamId (cache w)) = Inr team"
  shows "persisted_playerIds teamId (store (snd (processTeamSquad now a teamId cfg w))) =
     Some (upserted_ids (outcomes now a (capped cfg es) (loop_start now a teamId w)))"
  by (simp add: processTeamSquad_done[OF assms] persisted_after_upsertSquad
      bson_jv_idem[OF upserted_ids_defined])

lemma processTeamSquad_players_col:
  assumes "getTeamSquad a teamId = Inr es" "es \<noteq> []" "fst (getTeam a teamId (cache w)) = Inr team"
  shows "players_col (store (snd (processTeamSquad now a teamId cfg w))) =
     players_col (store (world_after now a (capped cfg es) (loop_start now a teamId w)))"
  by (simp add: processTeamSquad_done[OF assms] upsertSquad_def)

lemma processTeamSquad_failed:
  assumes "getTeamSquad a teamId = Inl err \<or>
     (\<exists>es. getTeamSquad a teamId = Inr es \<and> es \<noteq> [] \<and> fst (getTeam a teamId (cache w)) = Inl err)"
  shows "processTeamSquad now a teamId cfg w =
     (\<lparr> playersUpserted = 0, errors = [TeamError teamId (err_message err)] \<rparr>, w)"
proof -
  from assms consider (squad) "getTeamSquad a teamId = Inl err"
    | (team) es where "getTeamSquad a teamId = Inr es" "es \<noteq> []"
        "fst (getTeam a teamId (cache w)) = Inl err"
    by blast
  then show ?thesis
  proof cases
    case squad
    then show ?thesis by (simp add: processTeamSquad_def)
  next
    case team
    obtain c1 where g: "getTeam a teamId (cache w) = (Inl err, c1)"
      using team(3) by (cases "getTeam a teamId (cache w)") simp
    have "c1 = cache w" using getTeam_cache(2)[OF g] by simp
    then show ?thesis using team(1,2) g by (simp add: processTeamSquad_def)
  qed
qed


lemma upserted_ids_append: "upserted_ids (xs @ ys) = upserted_ids xs @ upserted_ids ys"
  by (induction xs rule: upserted_ids.induct) auto

lemma player_errors_append: "player_errors (xs @ ys) = player_errors xs @ player_errors ys"
  by (induction xs rule: player_errors.induct) auto

lemma player_errors_all_upserted: "list_all is_upserted os \<Longrightarrow> player_errors os = []"
  by (induction os rule: player_errors.induct) auto

lemma one_failure_split:
  assumes "k < length os" "os ! k = Failed p msg"
    "\<forall>i<length os. i \<noteq> k \<longrightarrow> is_upserted (os ! i)"
  shows "player_errors os = [PlayerError p msg]"
    and "map Upserted (upserted_ids os) = take k os @ drop (Suc k) os"
    and "length (upserted_ids os) = length os - 1"
proof -
  have split: "os = take k os @ Failed p msg # drop (Suc k) os"
    using assms(1,2) id_take_nth_drop[of k os] by simp
  have a: "list_all is_upserted (take k os)"
    using assms(1,3) by (auto simp: list_all_length)
  have b: "list_all is_upserted (drop (Suc k) os)"
    using assms(1,3) by (auto simp: list_all_length)
  have e: "player_errors os = player_errors (take k os) @ PlayerError p msg # player_errors (drop (Suc k) os)"
    by (subst split) (simp add: player_errors_append)
  show "player_errors os = [PlayerError p msg]"
    using e player_errors_all_upserted[OF a] player_errors_all_upserted[OF b] by simp
  have u: "upserted_ids os = upserted_ids (take k os) @ upserted_ids (drop (Suc k) os)"
    by (subst split) (simp add: upserted_ids_append)
  show m: "map Upserted (upserted_ids os) = take k os @ drop (Suc k) os"
    using u upserted_ids_all[OF a] upserted_ids_all[OF b] by simp
  have "length (map Upserted (upserted_ids os)) = length (take k os @ drop (Suc k) os)"
    using m by simp
  then show "length (upserted_ids os) = length os - 1"
    using assms(1) by simp
qed

lemma processEntry_self_contained:
  assumes "self_contained now e"
  shows "fst (processEntry now a e w) = Upserted (included_doc_id e)"
    and "cache (snd (processEntry now a e w)) = cache w"
proof -
  obtain p where p: "se_player e = Some p" "truthy (se_player_id e)" "truthy (pl_nationality_id p)"
    "pl_nationality p \<noteq> None"
    and club: "case findCurrentClub now (pl_teams p) of None \<Rightarrow> True
               | Some club \<Rightarrow> t_country club \<noteq> None \<or> \<not> truthy (t_country_id club)"
    using assms by (auto simp: self_contained_def split: option.splits)
  have 1: "playerOf a e (cache w) = (Inr (Some p), cache w)"
    using p by (simp add: playerOf_def)
  obtain n where 2: "nationalityOf a p (cache w) = (Inr n, cache w)"
    using p(4) by (auto simp: nationalityOf_def)
  have "\<exists>cl cc. currentClubOf now a p (cache w) = (Inr (cl, cc), cache w)"
  proof (cases "pl_teams p")
    case None
    then show ?thesis by (simp add: currentClubOf_def)
  next
    case ts: (Some ts)
    show ?thesis
    proof (cases "findCurrentClub now (Some ts)")
      case None
      then show ?thesis using ts by (simp add: currentClubOf_def)
    next
      case (Some club)
      then have c: "t_country club \<noteq> None \<or> \<not> truthy (t_country_id club)"
        using club ts by simp
      show ?thesis
      proof (cases "t_country club")
        case None
        then have "\<not> truthy (t_country_id club)" using c by simp
        then show ?thesis using None Some ts by (simp add: currentClubOf_def Let_def)
      next
        case k: (Some k)
        then show ?thesis using Some ts by (simp add: currentClubOf_def Let_def)
      qed
    qed
  qed
  then obtain cl cc where 3: "currentClubOf now a p (cache w) = (Inr (cl, cc), cache w)" by blast
  show "fst (processEntry now a e w) = Upserted (included_doc_id e)"
    and "cache (snd (processEntry now a e w)) = cache w"
    using p(1,2) by (simp_all add: processEntry_def 1 2 3 included_doc_id_def)
qed

lemma outcomes_self_contained:
  "i < length es \<Longrightarrow> self_contained now (es ! i) \<Longrightarrow>
   outcomes now a es w ! i = Upserted (included_doc_id (es ! i))"
proof (induction es arbitrary: i w)
  case Nil
  then show ?case by simp
next
  case (Cons e es)
  then show ?case
    by (cases i) (simp_all add: processEntry_self_contained(1))
qed



subsection \<open>Facts about the example rosters\<close>

lemma ex_entry_self_contained: "self_contained now (ex_entry i) \<longleftrightarrow> i \<noteq> 0"
  by (simp add: self_contained_def ex_entry_def findCurrentClub_def)

lemma ex_entry_doc_id: "included_doc_id (ex_entry i) = Str (''player:sportmonks:'' @ show_int i)"
  by (simp add: included_doc_id_def ex_entry_def playerDocId_def)

lemma ex_setup:
  "getTeamSquad (ex_api roster) (Num 18710) = Inr roster"
  "fst (getTeam (ex_api roster) (Num 18710) (cache ex_world)) = Inr (Some ex_team)"
  "cache_players (cache ex_world) q = None"
  by (simp_all add: getTeamSquad_def getTeam_def ex_api_def ex_world_def ex_cache_def)


lemma ex_roster3_facts:
  "capped ex_cfg ex_roster3 = ex_roster3" "ex_roster3 \<noteq> []" "ex_roster3 ! 1 = ex_bare_entry 2"
  "truthy (se_player_id (ex_bare_entry 2))" "se_player (ex_bare_entry 2) = None"
  "se_player_id (ex_bare_entry 2) = Num 2"
  "players_endpoint (ex_api ex_roster3) (''/players/'' @ to_string (Num 2)) =
     Inl (Error ''API Error 404: Not Found'')"
  "err_message (Error ''API Error 404: Not Found'') = ''API Error 404: Not Found''"
  by (simp_all add: capped_def ex_cfg_def ex_roster3_def ex_bare_entry_def ex_api_def Error_def)

lemma capped_roster3: "capped ex_cfg ex_roster3 = [ex_entry 1, ex_bare_entry 2, ex_entry 3]"
  by (simp add: capped_def ex_cfg_def ex_roster3_def)

lemma ex_roster3_others:
  "\<forall>i<length (capped ex_cfg ex_roster3). i \<noteq> 1 \<longrightarrow>
     is_upserted (loop_outcomes now a teamId ex_cfg w ex_roster3 ! i)"
proof (intro allI impI)
  fix i assume i: "i < length (capped ex_cfg ex_roster3)" "i \<noteq> 1"
  then have "i = 0 \<or> i = 2" by (auto simp: capped_roster3)
  then have sc: "self_contained now (capped ex_cfg ex_roster3 ! i)"
    by (auto simp: capped_roster3 ex_entry_self_contained)
  show "is_upserted (loop_outcomes now a teamId ex_cfg w ex_roster3 ! i)"
    unfolding loop_outcomes_def using outcomes_self_contained[OF i(1) sc] by simp
qed

lemma ex_roster3_outcomes:
  "loop_outcomes now a teamId ex_cfg w ex_roster3 ! 0 = Upserted (Str ''player:sportmonks:1'')"
  "loop_outcomes now a teamId ex_cfg w ex_roster3 ! 2 = Upserted (Str ''player:sportmonks:3'')"
  "length (loop_outcomes now a teamId ex_cfg w ex_roster3) = 3"
proof -
  have 0: "(0::nat) < length (capped ex_cfg ex_roster3)" "self_contained now (capped ex_cfg ex_roster3 ! 0)"
    by (simp_all add: capped_roster3 ex_entry_self_contained)
  have 2: "(2::nat) < length (capped ex_cfg ex_roster3)" "self_contained now (capped ex_cfg ex_roster3 ! 2)"
    by (simp_all add: capped_roster3 ex_entry_self_contained)
  show "loop_outcomes now a teamId ex_cfg w ex_roster3 ! 0 = Upserted (Str ''player:sportmonks:1'')"
    unfolding loop_outcomes_def using outcomes_self_contained[OF 0]
    by (simp add: capped_roster3 ex_entry_doc_id show_int_eval)
  show "loop_outcomes now a teamId ex_cfg w ex_roster3 ! 2 = Upserted (Str ''player:sportmonks:3'')"
    unfolding loop_outcomes_def using outcomes_self_contained[OF 2]
    by (simp add: capped_roster3 ex_entry_doc_id show_int_eval)
  show "length (loop_outcomes now a teamId ex_cfg w ex_roster3) = 3"
    by (simp add: loop_outcomes_def length_outcomes capped_roster3)
qed

subsection \<open>Claim C5: one failing player\<close>

text \<open>
  Claim C5. Take a run of \<open>processTeamSquad\<close> whose squad fetch yields a roster and whose team
  fetch succeeds. Let the entry at position \<open>k\<close> within the cap have a \<open>player_id\<close>, need a
  fetch (no payload included, or one without \<open>nationality_id\<close>, and no cached payload), and
  let that fetch throw (a 404, say); let every other pass of the loop upsert its player.
  Then the pass at \<open>k\<close> fails with that error; the error list of the run is the single entry
  with that \<open>player_id\<close> and the error's message; all other players are counted as upserted;
  the stored squad lists the identifiers of all other passes, in order, and only the
  failing one is missing; each of the other players has its document in the store; and
  when the run of \<open>main\<close> is over this one team, its error list is that single entry and the
  exit status is 1. The players of the squad are the entries within the cap.
\<close>

theorem one_failing_player_is_isolated:
  assumes "getTeamSquad a teamId = Inr squadEntries" and "squadEntries \<noteq> []"
    and "fst (getTeam a teamId (cache w)) = Inr team"
    and "k < length (capped cfg squadEntries)"
    and "truthy (se_player_id (capped cfg squadEntries ! k))"
    and "se_player (capped cfg squadEntries ! k) = None \<or>
         (\<exists>p. se_player (capped cfg squadEntries ! k) = Some p \<and> \<not> truthy (pl_nationality_id p))"
    and "cache_players (cache w) (se_player_id (capped cfg squadEntries ! k)) = None"
    and "players_endpoint a (''/players/'' @ to_string (se_player_id (capped cfg squadEntries ! k)))
           = Inl err"
    and "\<forall>i<length (capped cfg squadEntries). i \<noteq> k \<longrightarrow>
           is_upserted (loop_outcomes now a teamId cfg w squadEntries ! i)"
  shows
   "loop_outcomes now a teamId cfg w squadEntries ! k =
      Failed (se_player_id (capped cfg squadEntries ! k)) (err_message err) \<and>
    errors (fst (processTeamSquad now a teamId cfg w)) =
      [PlayerError (se_player_id (capped cfg squadEntries ! k)) (err_message err)] \<and>
    playersUpserted (fst (processTeamSquad now a teamId cfg w)) =
      length (capped cfg squadEntries) - 1 \<and>
    (\<exists>ids. persisted_playerIds teamId (store (snd (processTeamSquad now a teamId cfg w))) = Some ids \<and>
       map Upserted ids =
         take k (loop_outcomes now a teamId cfg w squadEntries) @
         drop (Suc k) (loop_outcomes now a teamId cfg w squadEntries)) \<and>
    (\<forall>i<length (capped cfg squadEntries). i \<noteq> k \<longrightarrow>
       (\<exists>d. loop_outcomes now a teamId cfg w squadEntries ! i = Upserted d \<and>
          find_doc d (players_col (store (snd (processTeamSquad now a teamId cfg w)))) \<noteq> None)) \<and>
    (TEAM_IDS cfg = [teamId] \<longrightarrow>
       all_errors (fst (main now a cfg w)) =
         [PlayerError (se_player_id (capped cfg squadEntries ! k)) (err_message err)] \<and>
       fst (snd (main now a cfg w)) = 1)"
proof -
  let ?es = "capped cfg squadEntries"
  let ?w1 = "loop_start now a teamId w"
  let ?os = "loop_outcomes now a teamId cfg w squadEntries"
  let ?r = "processTeamSquad now a teamId cfg w"
  have os: "?os = outcomes now a ?es ?w1" by (simp add: loop_outcomes_def)
  have len: "length ?os = length ?es" by (simp add: os length_outcomes)
  have miss: "cache_players (cache ?w1) (se_player_id (?es ! k)) = None"
    using assms(7) by (simp add: loop_start_cache_players)
  have bad: "?os ! k = Failed (se_player_id (?es ! k)) (err_message err)"
    unfolding os using assms(4,5,6) miss assms(8) by (rule outcomes_fetch_fails)
  have others: "\<forall>i<length ?os. i \<noteq> k \<longrightarrow> is_upserted (?os ! i)"
    using assms(9) len by simp
  have klen: "k < length ?os" using assms(4) len by simp
  note split = one_failure_split[OF klen bad others]
  have res: "?r =
     (\<lparr> playersUpserted = length (upserted_ids ?os), errors = player_errors ?os \<rparr>,
      (world_after now a ?es ?w1)
        \<lparr> store := snd (upsertSquad now
            \<lparr> sd_id = Undefined, sd_provider = Undefined, sd_teamId = teamId,
              sd_teamName = Undefined, sd_playerIds = Some (upserted_ids ?os) \<rparr>
            (store (world_after now a ?es ?w1))) \<rparr>)"
    unfolding os by (rule processTeamSquad_done[OF assms(1,2,3)])
  have e: "errors (fst ?r) = [PlayerError (se_player_id (?es ! k)) (err_message err)]"
    by (simp add: res split(1))
  have n: "playersUpserted (fst ?r) = length ?es - 1"
    by (simp add: res split(3) len)
  have p: "persisted_playerIds teamId (store (snd ?r)) = Some (upserted_ids ?os)"
    unfolding os by (rule processTeamSquad_persisted[OF assms(1,2,3)])
  have ids: "\<exists>ids. persisted_playerIds teamId (store (snd ?r)) = Some ids \<and>
       map Upserted ids = take k ?os @ drop (Suc k) ?os"
    using p split(2) by blast
  have pc: "players_col (store (snd ?r)) = players_col (store (world_after now a ?es ?w1))"
    by (rule processTeamSquad_players_col[OF assms(1,2,3)])
  have st: "\<forall>i<length ?es. i \<noteq> k \<longrightarrow>
       (\<exists>d. ?os ! i = Upserted d \<and> find_doc d (players_col (store (snd ?r))) \<noteq> None)"
  proof (intro allI impI)
    fix i assume i: "i < length ?es" "i \<noteq> k"
    then have "is_upserted (?os ! i)" using assms(9) by blast
    then obtain d where d: "?os ! i = Upserted d" by (cases "?os ! i") simp_all
    have "find_doc d (players_col (store (world_after now a ?es ?w1))) \<noteq> None"
      using i(1) d[unfolded os] by (rule outcomes_upserted_stored)
    then show "\<exists>d. ?os ! i = Upserted d \<and> find_doc d (players_col (store (snd ?r))) \<noteq> None"
      using d pc by simp
  qed
  have run: "TEAM_IDS cfg = [teamId] \<longrightarrow>
       all_errors (fst (main now a cfg w)) =
         [PlayerError (se_player_id (?es ! k)) (err_message err)] \<and>
       fst (snd (main now a cfg w)) = 1"
  proof
    assume one: "TEAM_IDS cfg = [teamId]"
    obtain st w' where r: "?r = (st, w')" by (cases ?r)
    have "errors st = [PlayerError (se_player_id (?es ! k)) (err_message err)]"
      using e r by simp
    then show "all_errors (fst (main now a cfg w)) =
         [PlayerError (se_player_id (?es ! k)) (err_message err)] \<and>
       fst (snd (main now a cfg w)) = 1"
      by (simp add: main_def one r)
  qed
  show ?thesis using bad e n ids st run by (intro conjI)
qed

theorem one_failing_player_witness:
  "getTeamSquad (ex_api ex_roster3) (Num 18710) = Inr ex_roster3 \<and> ex_roster3 \<noteq> [] \<and>
   fst (getTeam (ex_api ex_roster3) (Num 18710) (cache ex_world)) = Inr (Some ex_team) \<and>
   (1::nat) < length (capped ex_cfg ex_roster3) \<and>
   capped ex_cfg ex_roster3 ! 1 = ex_bare_entry 2 \<and>
   truthy (se_player_id (ex_bare_entry 2)) \<and> se_player (ex_bare_entry 2) = None \<and>
   cache_players (cache ex_world) (se_player_id (ex_bare_entry 2)) = None \<and>
   players_endpoint (ex_api ex_roster3) (''/players/'' @ to_string (se_player_id (ex_bare_entry 2))) =
     Inl (Error ''API Error 404: Not Found'') \<and>
   loop_outcomes ex_now (ex_api ex_roster3) (Num 18710) ex_cfg ex_world ex_roster3 =
     [Upserted (Str ''player:sportmonks:1''), Failed (Num 2) ''API Error 404: Not Found'',
      Upserted (Str ''player:sportmonks:3'')] \<and>
   errors (fst (processTeamSquad ex_now (ex_api ex_roster3) (Num 18710) ex_cfg ex_world)) =
     [PlayerError (Num 2) ''API Error 404: Not Found''] \<and>
   playersUpserted (fst (processTeamSquad ex_now (ex_api ex_roster3) (Num 18710) ex_cfg ex_world)) = 2 \<and>
   persisted_playerIds (Num 18710)
     (store (snd (processTeamSquad ex_now (ex_api ex_roster3) (Num 18710) ex_cfg ex_world))) =
     Some [Str ''player:sportmonks:1'', Str ''player:sportmonks:3''] \<and>
   find_doc (Str ''player:sportmonks:1'')
     (players_col (store (snd (processTeamSquad ex_now (ex_api ex_roster3) (Num 18710) ex_cfg ex_world))))
     \<noteq> None \<and>
   find_doc (Str ''player:sportmonks:3'')
     (players_col (store (snd (processTeamSquad ex_now (ex_api ex_roster3) (Num 18710) ex_cfg ex_world))))
     \<noteq> None \<and>
   TEAM_IDS ex_cfg = [Num 18710] \<and>
   all_errors (fst (main ex_now (ex_api ex_roster3) ex_cfg ex_world)) =
     [PlayerError (Num 2) ''API Error 404: Not Found''] \<and>
   fst (snd (main ex_now (ex_api ex_roster3) ex_cfg ex_world)) = 1"
proof -
  let ?a = "ex_api ex_roster3"
  let ?os = "loop_outcomes ex_now ?a (Num 18710) ex_cfg ex_world ex_roster3"
  let ?r = "processTeamSquad ex_now ?a (Num 18710) ex_cfg ex_world"
  have k: "(1::nat) < length (capped ex_cfg ex_roster3)" by (simp add: capped_roster3)
  have nth: "capped ex_cfg ex_roster3 ! 1 = ex_bare_entry 2" by (simp add: capped_roster3)
  have h5: "truthy (se_player_id (capped ex_cfg ex_roster3 ! 1))"
    and h6: "se_player (capped ex_cfg ex_roster3 ! 1) = None \<or>
         (\<exists>p. se_player (capped ex_cfg ex_roster3 ! 1) = Some p \<and> \<not> truthy (pl_nationality_id p))"
    and h7: "cache_players (cache ex_world) (se_player_id (capped ex_cfg ex_roster3 ! 1)) = None"
    and h8: "players_endpoint ?a (''/players/'' @ to_string (se_player_id (capped ex_cfg ex_roster3 ! 1)))
           = Inl (Error ''API Error 404: Not Found'')"
    unfolding nth by (simp_all add: ex_bare_entry_def ex_api_def ex_setup(3))
  note t = one_failing_player_is_isolated[OF ex_setup(1)[of ex_roster3] ex_roster3_facts(2)
      ex_setup(2)[of ex_roster3] k h5 h6 h7 h8 ex_roster3_others[of ex_now ?a "Num 18710" ex_world]]
  have v: "se_player_id (ex_bare_entry 2) = Num 2"
    "err_message (Error ''API Error 404: Not Found'') = ''API Error 404: Not Found''"
    by (simp_all add: ex_bare_entry_def Error_def)
  have bad: "?os ! 1 = Failed (Num 2) ''API Error 404: Not Found''"
    using t[THEN conjunct1] unfolding nth v .
  have os: "?os = [Upserted (Str ''player:sportmonks:1''), Failed (Num 2) ''API Error 404: Not Found'',
      Upserted (Str ''player:sportmonks:3'')]"
    using bad ex_roster3_outcomes[of ex_now ?a "Num 18710" ex_world]
    by (auto simp: list_eq_iff_nth_eq less_Suc_eq numeral_3_eq_3 numeral_2_eq_2)
  have e: "errors (fst ?r) = [PlayerError (Num 2) ''API Error 404: Not Found'']"
    using t[THEN conjunct2, THEN conjunct1] unfolding nth v .
  have n: "playersUpserted (fst ?r) = 2"
    using t[THEN conjunct2, THEN conjunct2, THEN conjunct1] by (simp add: capped_roster3)
  obtain ids where ids: "persisted_playerIds (Num 18710) (store (snd ?r)) = Some ids"
    "map Upserted ids = take 1 ?os @ drop (Suc 1) ?os"
    using t[THEN conjunct2, THEN conjunct2, THEN conjunct2, THEN conjunct1] by blast
  have "map Upserted ids = [Upserted (Str ''player:sportmonks:1''), Upserted (Str ''player:sportmonks:3'')]"
    using ids(2) by (simp add: os)
  then have "ids = [Str ''player:sportmonks:1'', Str ''player:sportmonks:3'']"
    by (auto simp: map_eq_Cons_conv)
  then have p: "persisted_playerIds (Num 18710) (store (snd ?r)) =
      Some [Str ''player:sportmonks:1'', Str ''player:sportmonks:3'']"
    using ids(1) by simp
  have st: "\<forall>i<length (capped ex_cfg ex_roster3). i \<noteq> 1 \<longrightarrow>
       (\<exists>d. ?os ! i = Upserted d \<and> find_doc d (players_col (store (snd ?r))) \<noteq> None)"
    using t[THEN conjunct2, THEN conjunct2, THEN conjunct2, THEN conjunct2, THEN conjunct1] .
  have one: "TEAM_IDS ex_cfg = [Num 18710]" by (simp add: ex_cfg_def)
  have run: "all_errors (fst (main ex_now (ex_api ex_roster3) ex_cfg ex_world)) =
       [PlayerError (Num 2) ''API Error 404: Not Found'']"
    "fst (snd (main ex_now (ex_api ex_roster3) ex_cfg ex_world)) = 1"
    using t[THEN conjunct2, THEN conjunct2, THEN conjunct2, THEN conjunct2, THEN conjunct2] one
    unfolding nth v by blast+
  have f1: "find_doc (Str ''player:sportmonks:1'') (players_col (store (snd ?r))) \<noteq> None"
    using st[rule_format, of 0] by (simp add: capped_roster3 os)
  have f3: "find_doc (Str ''player:sportmonks:3'') (players_col (store (snd ?r))) \<noteq> None"
    using st[rule_format, of 2] by (simp add: capped_roster3 os)
  show ?thesis
    using ex_setup(1)[of ex_roster3] ex_roster3_facts(2) ex_setup(2)[of ex_roster3] k nth
      ex_roster3_facts(4,5) ex_setup(3)[of "se_player_id (ex_bare_entry 2)"]
      h8[unfolded nth] os e n p f1 f3 one run
    by (intro conjI)
qed

subsection \<open>Claim C6: the squad size cap\<close>



subsection \<open>Claim C10: a fetch without payload\<close>

text \<open>
  Claim C10. For an entry with a \<open>player_id\<close> that needs a fetch (no payload included, or one
  without \<open>nationality_id\<close>, and no cached payload), when the response has no data
  \<open>getPlayer\<close> resolves to \<open>undefined\<close> and the pass leaves everything as it was: the loop goes
  on as if the entry were not there, with no document upserted, no identifier added to
  \<open>playerIds\<close> and no entry added to the error list.
\<close>

theorem missing_payload_is_skipped:
  assumes "truthy (se_player_id entry)"
    and "se_player entry = None \<or>
         (\<exists>p. se_player entry = Some p \<and> \<not> truthy (pl_nationality_id p))"
    and "cache_players (cache w) (se_player_id entry) = None"
    and "players_endpoint a (''/players/'' @ to_string (se_player_id entry)) = Inr None"
  shows
   "getPlayer a (se_player_id entry) (cache w) = (Inr None, cache w) \<and>
    processEntry now a entry w = (NoPlayer, w) \<and>
    playersLoop now a (entry # rest) (playerIds, stats, w) =
      playersLoop now a rest (playerIds, stats, w) \<and>
    outcomes now a (entry # rest) w = NoPlayer # outcomes now a rest w \<and>
    upserted_ids (outcomes now a (entry # rest) w) = upserted_ids (outcomes now a rest w) \<and>
    player_errors (outcomes now a (entry # rest) w) = player_errors (outcomes now a rest w)"
proof -
  have g: "getPlayer a (se_player_id entry) (cache w) = (Inr None, cache w)"
    using assms(3,4) by (simp add: getPlayer_def)
  have p: "processEntry now a entry w = (NoPlayer, w)"
    using assms by (rule processEntry_no_payload)
  show ?thesis by (simp add: g p)
qed

theorem missing_payload_witness:
  "truthy (se_player_id (ex_bare_entry 2)) \<and> se_player (ex_bare_entry 2) = None \<and>
   cache_players (cache ex_world) (se_player_id (ex_bare_entry 2)) = None \<and>
   players_endpoint ex_api_nodata (''/players/'' @ to_string (se_player_id (ex_bare_entry 2))) =
     Inr None \<and>
   processEntry ex_now ex_api_nodata (ex_bare_entry 2) ex_world = (NoPlayer, ex_world) \<and>
   playersLoop ex_now ex_api_nodata [ex_bare_entry 2]
     ([], \<lparr> playersUpserted = 0, errors = [] \<rparr>, ex_world) =
     ([], \<lparr> playersUpserted = 0, errors = [] \<rparr>, ex_world)"
proof -
  have h: "truthy (se_player_id (ex_bare_entry 2))"
    "se_player (ex_bare_entry 2) = None \<or>
       (\<exists>p. se_player (ex_bare_entry 2) = Some p \<and> \<not> truthy (pl_nationality_id p))"
    "cache_players (cache ex_world) (se_player_id (ex_bare_entry 2)) = None"
    "players_endpoint ex_api_nodata (''/players/'' @ to_string (se_player_id (ex_bare_entry 2))) =
       Inr None"
    by (simp_all add: ex_bare_entry_def ex_world_def ex_cache_def ex_api_nodata_def ex_api_def)
  have n: "se_player (ex_bare_entry 2) = None" by (simp add: ex_bare_entry_def)
  note t = missing_payload_is_skipped[OF h, of ex_now "[]" "[]" "\<lparr> playersUpserted = 0, errors = [] \<rparr>"]
  have a: "processEntry ex_now ex_api_nodata (ex_bare_entry 2) ex_world = (NoPlayer, ex_world)"
    using t by blast
  have b: "playersLoop ex_now ex_api_nodata [ex_bare_entry 2]
     ([], \<lparr> playersUpserted = 0, errors = [] \<rparr>, ex_world) =
     ([], \<lparr> playersUpserted = 0, errors = [] \<rparr>, ex_world)"
    using t by simp
  show ?thesis using h(1) n h(3,4) a b by (intro conjI)
qed

subsection \<open>Claim C7: a failed team\<close>

lemma teamsLoop_teamsProcessed:
  "teamsProcessed (fst (teamsLoop now a cfg ts (s, w))) = teamsProcessed s + length ts"
proof (induction ts arbitrary: s w)
  case Nil
  then show ?case by simp
next
  case (Cons t ts)
  obtain st w' where p: "processTeamSquad now a t cfg w = (st, w')"
    by (cases "processTeamSquad now a t cfg w")
  show ?case by (simp add: p Cons.IH)
qed

lemma teamsLoop_errors_kept:
  "e \<in> set (all_errors s) \<Longrightarrow> e \<in> set (all_errors (fst (teamsLoop now a cfg ts (s, w))))"
proof (induction ts arbitrary: s w)
  case Nil
  then show ?case by simp
next
  case (Cons t ts)
  obtain st w' where p: "processTeamSquad now a t cfg w = (st, w')"
    by (cases "processTeamSquad now a t cfg w")
  show ?case using Cons.prems by (simp add: p Cons.IH)
qed

lemma processTeamSquad_cache_teams_miss:
  assumes "cache_teams (cache w) q = None" "teams_endpoint a (''/teams/'' @ to_string q) = Inl err"
  shows "cache_teams (cache (snd (processTeamSquad now a t cfg w))) q = None"
proof (cases "getTeamSquad a t")
  case (Inl e)
  then show ?thesis using assms(1) by (simp add: processTeamSquad_def)
next
  case (Inr es)
  show ?thesis
  proof (cases "es = []")
    case True
    then show ?thesis using Inr assms(1) by (simp add: processTeamSquad_def)
  next
    case False
    obtain r c1 where g: "getTeam a t (cache w) = (r, c1)" by (cases "getTeam a t (cache w)")
    have m: "cache_teams c1 q = None" using getTeam_cache(3)[OF g assms] .
    show ?thesis
    proof (cases r)
      case (Inl e)
      then show ?thesis using Inr False g m by (simp add: processTeamSquad_def)
    next
      case team: (Inr team)
      have f: "fst (getTeam a t (cache w)) = Inr team" using g team by simp
      have ls: "cache_teams (cache (loop_start now a t w)) = cache_teams c1"
        by (simp add: loop_start_def g)
      show ?thesis
        using m by (simp add: processTeamSquad_done[OF Inr False f] world_after_cols(4) ls)
    qed
  qed
qed

lemma teamsLoop_team_error:
  assumes "teamId \<in> set ts"
    and "getTeamSquad a teamId = Inl err \<or>
         (\<exists>es. getTeamSquad a teamId = Inr es \<and> es \<noteq> [] \<and>
               cache_teams (cache w) teamId = None \<and>
               teams_endpoint a (''/teams/'' @ to_string teamId) = Inl err)"
  shows "TeamError teamId (err_message err) \<in> set (all_errors (fst (teamsLoop now a cfg ts (s, w))))"
  using assms
proof (induction ts arbitrary: s w)
  case Nil
  then show ?case by simp
next
  case (Cons t ts)
  obtain st w' where p: "processTeamSquad now a t cfg w = (st, w')"
    by (cases "processTeamSquad now a t cfg w")
  let ?s' = "s\<lparr> teamsProcessed := teamsProcessed s + 1,
                 total_playersUpserted := total_playersUpserted s + playersUpserted st,
                 squadsUpserted := squadsUpserted s + 1,
                 all_errors := all_errors s @ errors st \<rparr>"
  have step: "teamsLoop now a cfg (t # ts) (s, w) = teamsLoop now a cfg ts (?s', w')"
    by (simp add: p)
  show ?case
  proof (cases "t = teamId")
    case True
    have fail: "getTeamSquad a teamId = Inl err \<or>
       (\<exists>es. getTeamSquad a teamId = Inr es \<and> es \<noteq> [] \<and> fst (getTeam a teamId (cache w)) = Inl err)"
      using Cons.prems(2) by (auto simp: getTeam_def)
    have "st = \<lparr> playersUpserted = 0, errors = [TeamError teamId (err_message err)] \<rparr>"
      using processTeamSquad_failed[OF fail, of now cfg] p True by simp
    then have "TeamError teamId (err_message err) \<in> set (all_errors ?s')" by simp
    then show ?thesis unfolding step by (rule teamsLoop_errors_kept)
  next
    case False
    then have mem: "teamId \<in> set ts" using Cons.prems(1) by simp
    have cond: "getTeamSquad a teamId = Inl err \<or>
         (\<exists>es. getTeamSquad a teamId = Inr es \<and> es \<noteq> [] \<and>
               cache_teams (cache w') teamId = None \<and>
               teams_endpoint a (''/teams/'' @ to_string teamId) = Inl err)"
    proof (cases "getTeamSquad a teamId = Inl err")
      case True
      then show ?thesis by simp
    next
      case F: False
      then obtain es where es: "getTeamSquad a teamId = Inr es" "es \<noteq> []"
        "cache_teams (cache w) teamId = None"
        "teams_endpoint a (''/teams/'' @ to_string teamId) = Inl err"
        using Cons.prems(2) by blast
      have "cache_teams (cache w') teamId = None"
        using processTeamSquad_cache_teams_miss[OF es(3,4), of now t cfg] p by simp
      then show ?thesis using es by blast
    qed
    show ?thesis unfolding step using mem cond by (rule Cons.IH)
  qed
qed

text \<open>
  Claim C7, as the code has it. When the squad fetch of a team throws, or its team fetch
  throws (nothing cached for the team), \<open>processTeamSquad\<close> returns the single error entry
  with the team's id and leaves caches and database as they were: no squad document is
  written. In a run of \<open>main\<close> that starts in this state, the error of every such requested
  team is in the summary's error list and the exit status is 1; and \<open>teamsProcessed\<close> counts
  every requested team, failed or not.
\<close>

theorem failed_team_is_recorded:
  assumes "getTeamSquad a teamId = Inl err \<or>
           (\<exists>es. getTeamSquad a teamId = Inr es \<and> es \<noteq> [] \<and>
                 cache_teams (cache w) teamId = None \<and>
                 teams_endpoint a (''/teams/'' @ to_string teamId) = Inl err)"
  shows
   "processTeamSquad now a teamId cfg w =
      (\<lparr> playersUpserted = 0, errors = [TeamError teamId (err_message err)] \<rparr>, w) \<and>
    squads_col (store (snd (processTeamSquad now a teamId cfg w))) = squads_col (store w) \<and>
    (teamId \<in> set (TEAM_IDS cfg) \<longrightarrow>
       TeamError teamId (err_message err) \<in> set (all_errors (fst (main now a cfg w))) \<and>
       fst (snd (main now a cfg w)) = 1) \<and>
    teamsProcessed (fst (main now a cfg w)) = length (TEAM_IDS cfg)"
proof -
  have fail: "getTeamSquad a teamId = Inl err \<or>
       (\<exists>es. getTeamSquad a teamId = Inr es \<and> es \<noteq> [] \<and> fst (getTeam a teamId (cache w)) = Inl err)"
    using assms by (auto simp: getTeam_def)
  have 1: "processTeamSquad now a teamId cfg w =
      (\<lparr> playersUpserted = 0, errors = [TeamError teamId (err_message err)] \<rparr>, w)"
    using fail by (rule processTeamSquad_failed)
  have 2: "squads_col (store (snd (processTeamSquad now a teamId cfg w))) = squads_col (store w)"
    by (simp add: 1)
  obtain s w' where m: "teamsLoop now a cfg (TEAM_IDS cfg)
      (\<lparr> teamsProcessed = 0, total_playersUpserted = 0, squadsUpserted = 0, all_errors = [] \<rparr>, w) = (s, w')"
    by (cases "teamsLoop now a cfg (TEAM_IDS cfg)
      (\<lparr> teamsProcessed = 0, total_playersUpserted = 0, squadsUpserted = 0, all_errors = [] \<rparr>, w)")
  have main: "main now a cfg w = (s, if all_errors s \<noteq> [] then 1 else 0, w')"
    by (simp add: main_def m)
  have 3: "teamId \<in> set (TEAM_IDS cfg) \<longrightarrow>
       TeamError teamId (err_message err) \<in> set (all_errors (fst (main now a cfg w))) \<and>
       fst (snd (main now a cfg w)) = 1"
  proof
    assume mem: "teamId \<in> set (TEAM_IDS cfg)"
    have "TeamError teamId (err_message err) \<in> set (all_errors (fst (teamsLoop now a cfg (TEAM_IDS cfg)
      (\<lparr> teamsProcessed = 0, total_playersUpserted = 0, squadsUpserted = 0, all_errors = [] \<rparr>, w))))"
      using mem assms by (rule teamsLoop_team_error)
    then have e: "TeamError teamId (err_message err) \<in> set (all_errors s)" by (simp add: m)
    then have "all_errors s \<noteq> []" by auto
    then show "TeamError teamId (err_message err) \<in> set (all_errors (fst (main now a cfg w))) \<and>
       fst (snd (main now a cfg w)) = 1"
      using e by (simp add: main)
  qed
  have 4: "teamsProcessed (fst (main now a cfg w)) = length (TEAM_IDS cfg)"
    using teamsLoop_teamsProcessed[of now a cfg "TEAM_IDS cfg"
        "\<lparr> teamsProcessed = 0, total_playersUpserted = 0, squadsUpserted = 0, all_errors = [] \<rparr>" w]
    by (simp add: main m)
  show ?thesis using 1 2 3 4 by (intro conjI)
qed

theorem failed_team_witness:
  "getTeamSquad ex_api_down (Num 18710) = Inl (Error ''fetch failed'') \<and>
   Num 18710 \<in> set (TEAM_IDS ex_cfg) \<and>
   processTeamSquad ex_now ex_api_down (Num 18710) ex_cfg ex_world =
     (\<lparr> playersUpserted = 0, errors = [TeamError (Num 18710) ''fetch failed''] \<rparr>, ex_world) \<and>
   TeamError (Num 18710) ''fetch failed'' \<in> set (all_errors (fst (main ex_now ex_api_down ex_cfg ex_world))) \<and>
   fst (snd (main ex_now ex_api_down ex_cfg ex_world)) = 1 \<and>
   teamsProcessed (fst (main ex_now ex_api_down ex_cfg ex_world)) = 1 \<and>
   getTeamSquad ex_api_team_down (Num 18710) = Inr ex_roster3 \<and> ex_roster3 \<noteq> [] \<and>
   cache_teams (cache ex_world) (Num 18710) = None \<and>
   teams_endpoint ex_api_team_down (''/teams/'' @ to_string (Num 18710)) =
     Inl (Error ''API Error 404: Not Found'') \<and>
   processTeamSquad ex_now ex_api_team_down (Num 18710) ex_cfg ex_world =
     (\<lparr> playersUpserted = 0, errors = [TeamError (Num 18710) ''API Error 404: Not Found''] \<rparr>,
      ex_world) \<and>
   squads_col (store (snd (processTeamSquad ex_now ex_api_team_down (Num 18710) ex_cfg ex_world))) = []"
proof -
  have h1: "getTeamSquad ex_api_down (Num 18710) = Inl (Error ''fetch failed'')"
    by (simp add: getTeamSquad_def ex_api_down_def)
  have mem: "Num 18710 \<in> set (TEAM_IDS ex_cfg)" by (simp add: ex_cfg_def)
  have len: "length (TEAM_IDS ex_cfg) = 1" by (simp add: ex_cfg_def)
  have msg: "err_message (Error ''fetch failed'') = ''fetch failed''"
    "err_message (Error ''API Error 404: Not Found'') = ''API Error 404: Not Found''"
    by (simp_all add: Error_def)
  have h2: "getTeamSquad ex_api_team_down (Num 18710) = Inr ex_roster3" "ex_roster3 \<noteq> []"
    "cache_teams (cache ex_world) (Num 18710) = None"
    "teams_endpoint ex_api_team_down (''/teams/'' @ to_string (Num 18710)) =
       Inl (Error ''API Error 404: Not Found'')"
    by (simp_all add: getTeamSquad_def ex_api_team_down_def ex_api_def ex_roster3_def ex_world_def
        ex_cache_def)
  have sq: "squads_col (store ex_world) = []" by (simp add: ex_world_def empty_db_def)
  note t1 = failed_team_is_recorded[of ex_api_down "Num 18710" "Error ''fetch failed''" ex_world
      ex_now ex_cfg, unfolded msg len]
  note t2 = failed_team_is_recorded[of ex_api_team_down "Num 18710"
      "Error ''API Error 404: Not Found''" ex_world ex_now ex_cfg, unfolded msg len sq]
  have a: "processTeamSquad ex_now ex_api_down (Num 18710) ex_cfg ex_world =
     (\<lparr> playersUpserted = 0, errors = [TeamError (Num 18710) ''fetch failed''] \<rparr>, ex_world)"
    "TeamError (Num 18710) ''fetch failed'' \<in> set (all_errors (fst (main ex_now ex_api_down ex_cfg ex_world)))"
    "fst (snd (main ex_now ex_api_down ex_cfg ex_world)) = 1"
    "teamsProcessed (fst (main ex_now ex_api_down ex_cfg ex_world)) = 1"
    using t1 h1 mem by blast+
  have b: "processTeamSquad ex_now ex_api_team_down (Num 18710) ex_cfg ex_world =
     (\<lparr> playersUpserted = 0, errors = [TeamError (Num 18710) ''API Error 404: Not Found''] \<rparr>,
      ex_world)"
    "squads_col (store (snd (processTeamSquad ex_now ex_api_team_down (Num 18710) ex_cfg ex_world))) = []"
    using t2 h2 by blast+
  show ?thesis using h1 mem a h2 b by (intro conjI)
qed

text \<open>
  The claim as stated fails: in a run over one team whose squad fetch throws, where no squad
  document is written, the summary has \<open>teamsProcessed = 1\<close> and \<open>squadsUpserted = 1\<close>.
\<close>

theorem failed_team_is_counted:
  "getTeamSquad ex_api_down (Num 18710) = Inl (Error ''fetch failed'') \<and>
   main ex_now ex_api_down ex_cfg ex_world =
     (\<lparr> teamsProcessed = 1, total_playersUpserted = 0, squadsUpserted = 1,
        all_errors = [TeamError (Num 18710) ''fetch failed''] \<rparr>, 1, ex_world) \<and>
   squads_col (store ex_world) = []"
  by (simp add: main_def processTeamSquad_def getTeamSquad_def ex_api_down_def ex_cfg_def Error_def
      ex_world_def empty_db_def)

end
